theory Spec2Isabelle
  imports Complex_Main "HOL-Library.Log_Nat"
begin

section \<open>Inventory valuation and recipe costing of \<^verbatim>\<open>src/index.tsx\<close>\<close>

text \<open>
  The engine of the point-of-sale application: a per-ingredient batch ledger, the
  weighted-average cost derived from it, recipe cost and sellable stock, the deduction of
  stock at a sale, stock-count reconciliation and the bulk stock adjustment.

  Numbers. The source computes with JavaScript numbers, IEEE 754 binary64. The
  development has two models of them. In the first, numbers are exact, of type
  \<^typ>\<open>real\<close>: it says what a function returns in the source's own operations, and
  nothing about rounding, \<^verbatim>\<open>NaN\<close> or infinities; the one place where the source can
  produce an infinity from finite inputs (\<^verbatim>\<open>Math.min\<close> of no arguments) is modelled by
  a \<^typ>\<open>real option\<close>. In the second, every operation rounds its exact result to
  binary64, to nearest with ties to even, as \<open>round64\<close> below does; the bounds of the
  average cost and the conservation of the ledger, which rounding decides, are stated
  in it.

  Time. \<^verbatim>\<open>new Date().toISOString()\<close> and \<^verbatim>\<open>Date.now()\<close> are inputs of the model
  (the arguments \<open>now\<close> and \<open>nowMs\<close>); browser confirmations are Boolean inputs.

  Field names. Several source types share field names (\<^verbatim>\<open>id\<close>, \<^verbatim>\<open>name\<close>, \<^verbatim>\<open>quantity\<close>,
  \<^verbatim>\<open>price\<close>, \<^verbatim>\<open>unit\<close>, \<^verbatim>\<open>unitCost\<close>, \<^verbatim>\<open>type\<close>); a record field is a constant in
  HOL, so the fields of all records but \<open>StockHistoryItem\<close> carry a short prefix, and
  the two constructors of a product's \<^verbatim>\<open>type\<close> are \<open>Type_PRODUCT\<close> and \<open>Type_MISC_COST\<close>.
\<close>

subsection \<open>Type definitions\<close>

record StockHistoryItem =
  date :: string
  quantity :: real
  unitCost :: real

record Ingredient =
  ing_id :: string
  ing_name :: string
  ing_unit :: string
  ing_price :: real
  lowStockThreshold :: real
  stockHistory :: "StockHistoryItem list"

record RecipeItem =
  ingredientId :: string
  recipe_quantity :: real

datatype ProductType = Type_PRODUCT | Type_MISC_COST

record Product =
  prod_id :: string
  prod_name :: string
  prod_price :: real
  prod_quantity :: real
  prod_cost :: real
  prod_type :: ProductType
  prod_recipe :: "RecipeItem list"
  prod_timestamp :: "string option"

text \<open>
  \<^verbatim>\<open>actualStock: number | ''\<close>: a draft line holds \<^typ>\<open>real option\<close> (\<^const>\<open>None\<close> is the
  empty string, no count entered), a finalized line a \<^typ>\<open>real\<close>.
\<close>

record 'a StockCountItem =
  sci_ingredientId :: string
  ingredientName :: string
  sci_unit :: string
  expectedStock :: real
  actualStock :: 'a
  sci_unitCost :: real

record StockCount =
  sc_id :: string
  sc_timestamp :: string
  sc_items :: "real option StockCountItem list"
  totalVarianceValue :: real

datatype CartItemType = PRODUCT | INGREDIENT

record CartItem =
  itemId :: string
  cart_name :: string
  cart_price :: real
  cart_quantity :: real
  cart_type :: CartItemType

datatype InventoryTab = PRODUCTS | INGREDIENTS | MISC | STOCK_COUNT | STOCK_HISTORY

subsection \<open>Stock ledger\<close>

text \<open>\<^verbatim>\<open>Array.prototype.reduce(f, init)\<close> is a left fold.\<close>

definition getIngredientTotalStock :: "Ingredient \<Rightarrow> real" where
  "getIngredientTotalStock ingredient =
     foldl (\<lambda>sum record. sum + quantity record) 0 (stockHistory ingredient)"

definition getIngredientAverageCost :: "Ingredient \<Rightarrow> real" where
  "getIngredientAverageCost ingredient =
     (let totalStock = getIngredientTotalStock ingredient in
      if totalStock \<le> 0 then 0
      else
        let totalCost =
              foldl (\<lambda>sum record. sum + quantity record * unitCost record) 0
                (stockHistory ingredient)
        in totalCost / totalStock)"

subsection \<open>Recipe resolver\<close>

text \<open>
  \<^verbatim>\<open>ingredients.find(i => i.id === id)\<close> is \<^const>\<open>find\<close>: the first ingredient with that
  id, or nothing (\<^verbatim>\<open>undefined\<close>, here \<^const>\<open>None\<close>).
\<close>

definition calculateProductCost :: "RecipeItem list \<Rightarrow> Ingredient list \<Rightarrow> real" where
  "calculateProductCost recipe ingredients =
     foldl (\<lambda>totalCost recipeItem.
        case find (\<lambda>i. ing_id i = ingredientId recipeItem) ingredients of
          None \<Rightarrow> totalCost
        | Some ingredient \<Rightarrow>
            totalCost + getIngredientAverageCost ingredient * recipe_quantity recipeItem)
       0 recipe"

text \<open>
  \<^verbatim>\<open>Math.min(...xs)\<close> is the least of its arguments and \<^verbatim>\<open>Infinity\<close> when there is
  none; \<^const>\<open>None\<close> stands for that infinity.
\<close>

fun Math_min :: "real list \<Rightarrow> real option" where
  "Math_min [] = None"
| "Math_min (x # xs) = Some (foldl min x xs)"

text \<open>The arrow function that \<^verbatim>\<open>calculateProductStock\<close> maps over the recipe.\<close>

definition stockLevel :: "Ingredient list \<Rightarrow> RecipeItem \<Rightarrow> real" where
  "stockLevel ingredients recipeItem =
     (let ingredient = find (\<lambda>i. ing_id i = ingredientId recipeItem) ingredients;
          ingredientStock =
            (case ingredient of Some i \<Rightarrow> getIngredientTotalStock i | None \<Rightarrow> 0)
      in if ingredient = None \<or> ingredientStock = 0 \<or> recipe_quantity recipeItem = 0
         then 0
         else of_int \<lfloor>ingredientStock / recipe_quantity recipeItem\<rfloor>)"

definition calculateProductStock :: "RecipeItem list \<Rightarrow> Ingredient list \<Rightarrow> real option" where
  "calculateProductStock recipe ingredients =
     (if recipe = [] then Some 0
      else
        let stockLevels = map (stockLevel ingredients) recipe
        in Math_min stockLevels)"

subsection \<open>Binary64 arithmetic\<close>

text \<open>
  A finite binary64 number is an integer multiple \<open>m * 2 powi e\<close> with \<open>\<bar>m\<bar> < 2 ^ 53\<close>,
  \<open>- 1074 \<le> e\<close> and magnitude below \<open>2 ^ 1024\<close>; the model takes it as that real number
  (the two zeros are one number: the source never divides by a zero). An operation of
  the source computes the exact result and rounds it.

  \<open>ilog2 x\<close>, for \<open>x > 0\<close>, is the exponent of the binade of \<open>x\<close>: the integer \<open>k\<close> with
  \<open>2 powi k \<le> x < 2 powi (k + 1)\<close>. \<open>roundHalfEven\<close> rounds to the nearest integer, a tie
  to the even one. \<open>round64 x\<close> is the binary64 number nearest to \<open>x\<close>: the unit in the last
  place of \<open>x\<close> is \<open>2 powi e\<close> with \<open>e = ilog2 \<bar>x\<bar> - 52\<close>, or \<open>- 1074\<close> in the subnormal range,
  and \<open>x\<close> is rounded to a multiple of it. The result is \<^const>\<open>None\<close> when it is not a
  finite number (the source has \<^verbatim>\<open>Infinity\<close> there); an operation on \<^const>\<open>None\<close> is
  \<^const>\<open>None\<close>, and where a function of the model returns \<^const>\<open>None\<close> the model says nothing
  about what the source returns.
\<close>

definition ilog2 :: "real \<Rightarrow> int" where
  "ilog2 x = (if 1 \<le> x then bitlen \<lfloor>x\<rfloor> - 1 else - bitlen (\<lceil>1 / x\<rceil> - 1))"

definition roundHalfEven :: "real \<Rightarrow> int" where
  "roundHalfEven x =
     (let f = \<lfloor>x\<rfloor>; d = x - of_int f
      in if d < 1 / 2 then f else if 1 / 2 < d then f + 1 else if even f then f else f + 1)"

definition round64 :: "real \<Rightarrow> real option" where
  "round64 x =
     (if x = 0 then Some 0
      else
        let a = \<bar>x\<bar>;
            e = max (ilog2 a - 52) (- 1074);
            y = of_int (roundHalfEven (a / 2 powi e)) * 2 powi e
        in if 2 ^ 1024 \<le> y then None else Some (if x < 0 then - y else y))"

text \<open>The source's \<^verbatim>\<open>a + b\<close>, \<^verbatim>\<open>a * b\<close> and \<^verbatim>\<open>a / b\<close> on finite numbers.\<close>

definition add64 :: "real \<Rightarrow> real \<Rightarrow> real option" where
  "add64 a b = round64 (a + b)"

definition mul64 :: "real \<Rightarrow> real \<Rightarrow> real option" where
  "mul64 a b = round64 (a * b)"

definition div64 :: "real \<Rightarrow> real \<Rightarrow> real option" where
  "div64 a b = (if b = 0 then None else round64 (a / b))"

subsection \<open>The stock ledger in binary64\<close>

text \<open>
  \<^verbatim>\<open>getIngredientTotalStock\<close> and \<^verbatim>\<open>getIngredientAverageCost\<close> once more, every operation
  rounding. \<open>totalCost64\<close> is the local \<^verbatim>\<open>totalCost\<close> of \<^verbatim>\<open>getIngredientAverageCost\<close>.
\<close>

definition getIngredientTotalStock64 :: "Ingredient \<Rightarrow> real option" where
  "getIngredientTotalStock64 ingredient =
     foldl (\<lambda>sum record. Option.bind sum (\<lambda>s. add64 s (quantity record))) (Some 0)
       (stockHistory ingredient)"

definition totalCost64 :: "Ingredient \<Rightarrow> real option" where
  "totalCost64 ingredient =
     foldl (\<lambda>sum record.
        Option.bind sum (\<lambda>s.
          Option.bind (mul64 (quantity record) (unitCost record)) (\<lambda>p. add64 s p)))
       (Some 0) (stockHistory ingredient)"

definition getIngredientAverageCost64 :: "Ingredient \<Rightarrow> real option" where
  "getIngredientAverageCost64 ingredient =
     Option.bind (getIngredientTotalStock64 ingredient) (\<lambda>totalStock.
       if totalStock \<le> 0 then Some 0
       else Option.bind (totalCost64 ingredient) (\<lambda>totalCost. div64 totalCost totalStock))"

subsection \<open>Restocking an ingredient: \<^verbatim>\<open>IngredientModal.handleSubmit\<close>\<close>

text \<open>
  The form holds text; \<^verbatim>\<open>parseFloat\<close> and \<^verbatim>\<open>parseInt\<close> of a field give a number or
  \<^verbatim>\<open>NaN\<close>, here \<^const>\<open>None\<close>, and \<^verbatim>\<open>x || 0\<close> replaces \<^verbatim>\<open>NaN\<close> (and 0) by 0.
  \<^verbatim>\<open>String.prototype.toLowerCase\<close> is an argument of the model, which so holds for
  whatever that function does. The unit cost is a quotient in binary64; where it is not
  a finite number the model stops with \<open>UnitCostNotFinite\<close>, which is not a rejection of
  the source: the source saves the ingredient with that unit cost.
\<close>

record IngredientFormData =
  form_id :: string
  form_name :: string
  form_unit :: string
  form_price :: "real option"
  form_lowStockThreshold :: "int option"
  form_stock :: "int option"
  form_totalCost :: "real option"
  form_addQuantity :: "real option"
  form_addTotalCost :: "real option"

datatype form_error =
  NameAndUnitRequired | NameAlreadyExists | StockMustBePositive | UnitCostNotFinite

definition orZero :: "'a::zero option \<Rightarrow> 'a" where
  "orZero parsed = (case parsed of None \<Rightarrow> 0 | Some v \<Rightarrow> v)"

definition handleSubmit ::
  "(string \<Rightarrow> string) \<Rightarrow> string \<Rightarrow> string \<Rightarrow> Ingredient list \<Rightarrow> Ingredient option
   \<Rightarrow> IngredientFormData \<Rightarrow> form_error + Ingredient" where
  "handleSubmit toLowerCase now nowMs ingredients ingredient formData =
     (if form_name formData = [] \<or> form_unit formData = [] then Inl NameAndUnitRequired
      else if find (\<lambda>i. toLowerCase (ing_name i) = toLowerCase (form_name formData)
                         \<and> ing_id i \<noteq> form_id formData) ingredients \<noteq> None
      then Inl NameAlreadyExists
      else
        case ingredient of
          Some ing \<Rightarrow>
            let addQuantity = orZero (form_addQuantity formData);
                addTotalCost = orZero (form_addTotalCost formData);
                updatedIngredient =
                  ing\<lparr>ing_name := form_name formData, ing_unit := form_unit formData,
                      ing_price := orZero (form_price formData),
                      lowStockThreshold := of_int (orZero (form_lowStockThreshold formData))\<rparr>
            in if addQuantity > 0
               then
                 case (if addTotalCost > 0 \<and> addQuantity > 0
                       then div64 addTotalCost addQuantity else Some 0) of
                   None \<Rightarrow> Inl UnitCostNotFinite
                 | Some newUnitCost \<Rightarrow>
                     Inr (updatedIngredient
                       \<lparr>stockHistory := stockHistory updatedIngredient @
                          [\<lparr>date = now, quantity = addQuantity, unitCost = newUnitCost\<rparr>]\<rparr>)
               else Inr updatedIngredient
        | None \<Rightarrow>
            let stock = orZero (form_stock formData);
                totalCost = orZero (form_totalCost formData)
            in if stock \<le> 0 then Inl StockMustBePositive
               else
                 case div64 totalCost (of_int stock) of
                   None \<Rightarrow> Inl UnitCostNotFinite
                 | Some newUnitCost \<Rightarrow>
                     Inr \<lparr>ing_id = ''ing_'' @ nowMs, ing_name = form_name formData,
                          ing_unit = form_unit formData,
                          ing_price = orZero (form_price formData),
                          lowStockThreshold =
                            of_int (orZero (form_lowStockThreshold formData)),
                          stockHistory =
                            [\<lparr>date = now, quantity = of_int stock, unitCost = newUnitCost\<rparr>]\<rparr>)"

subsection \<open>Bulk edit: \<^verbatim>\<open>handleBulkSave\<close>\<close>

text \<open>
  \<^verbatim>\<open>parseIntOrUndefined(data.stock)\<close> is \<^verbatim>\<open>undefined\<close>, \<^verbatim>\<open>NaN\<close> or an integer; the
  source tests for the first two before it appends a batch. The other fields are
  \<^verbatim>\<open>undefined\<close> (\<^const>\<open>None\<close>) or a number. The state is the pair of the ingredients and
  the inventory; the set of selected ids and the tab are inputs.
\<close>

datatype parsedInt = Undefined | NaN | IntValue int

record BulkData =
  data_price :: "real option"
  data_lowStockThreshold :: "int option"
  data_stock :: parsedInt
  data_cost :: "real option"

definition handleBulkSave ::
  "string \<Rightarrow> InventoryTab \<Rightarrow> string set \<Rightarrow> BulkData \<Rightarrow> string
   \<Rightarrow> Ingredient list \<times> Product list \<Rightarrow> Ingredient list \<times> Product list" where
  "handleBulkSave now activeTab selectedItems data stockOp state =
     (case state of (ingredients, inventory) \<Rightarrow>
      if activeTab = INGREDIENTS then
        (map (\<lambda>ing.
           if ing_id ing \<in> selectedItems then
             let newIng1 = (case data_price data of
                              Some price \<Rightarrow> ing\<lparr>ing_price := price\<rparr> | None \<Rightarrow> ing);
                 newIng2 = (case data_lowStockThreshold data of
                              Some low \<Rightarrow> newIng1\<lparr>lowStockThreshold := of_int low\<rparr>
                            | None \<Rightarrow> newIng1)
             in case data_stock data of
                  IntValue stockValue \<Rightarrow>
                    let qty = (if stockOp = ''add'' then of_int stockValue
                               else - of_int stockValue)
                    in newIng2\<lparr>stockHistory := stockHistory newIng2 @
                         [\<lparr>date = now, quantity = qty, unitCost = 0\<rparr>]\<rparr>
                | _ \<Rightarrow> newIng2
           else ing) ingredients,
         inventory)
      else
        case (if activeTab = PRODUCTS then data_price data else data_cost data) of
          None \<Rightarrow> state
        | Some newValue \<Rightarrow>
            (ingredients,
             map (\<lambda>p. if prod_id p \<in> selectedItems
                      then (if activeTab = PRODUCTS then p\<lparr>prod_price := newValue\<rparr>
                            else p\<lparr>prod_cost := newValue\<rparr>)
                      else p) inventory))"

subsection \<open>Stock count: \<^verbatim>\<open>NewStockCountView\<close>\<close>

text \<open>The draft lines that the view's effect sets from the ingredients.\<close>

definition NewStockCountView_countItems ::
  "Ingredient list \<Rightarrow> real option StockCountItem list" where
  "NewStockCountView_countItems ingredients =
     map (\<lambda>ing. \<lparr>sci_ingredientId = ing_id ing, ingredientName = ing_name ing,
                  sci_unit = ing_unit ing, expectedStock = getIngredientTotalStock ing,
                  actualStock = None, sci_unitCost = getIngredientAverageCost ing\<rparr>)
       ingredients"

text \<open>
  \<^verbatim>\<open>handleCountChange(id, value)\<close>: the value is the empty string (\<^const>\<open>None\<close>) or parses
  to a number.
\<close>

definition handleCountChange ::
  "string \<Rightarrow> real option \<Rightarrow> real option StockCountItem list
   \<Rightarrow> real option StockCountItem list" where
  "handleCountChange ident val prev =
     map (\<lambda>item. if sci_ingredientId item = ident then item\<lparr>actualStock := val\<rparr> else item)
       prev"

text \<open>
  The draft of the view: the lines set from the ingredients, then any sequence of calls
  of \<^verbatim>\<open>handleCountChange\<close>, each with the id of a line and the value entered.
\<close>

definition countItemsAfter ::
  "Ingredient list \<Rightarrow> (string \<times> real option) list \<Rightarrow> real option StockCountItem list" where
  "countItemsAfter ingredients edits =
     foldl (\<lambda>prev edit. handleCountChange (fst edit) (snd edit) prev)
       (NewStockCountView_countItems ingredients) edits"

text \<open>
  \<^verbatim>\<open>handleFinalizeCount\<close>. The two \<^verbatim>\<open>window.confirm\<close> answers are inputs. The source's
  \<^verbatim>\<open>map\<close> adds to \<^verbatim>\<open>totalVarianceValue\<close> as it builds \<^verbatim>\<open>finalItems\<close>: one left fold
  over the lines carrying both. A finalized line is the draft line with a number for
  \<^verbatim>\<open>actualStock\<close>, and the record stored has the type of a draft line again. The state
  is the pair of the ingredients and the stock counts.
\<close>

definition withActual :: "'a StockCountItem \<Rightarrow> 'b \<Rightarrow> 'b StockCountItem" where
  \<comment> \<open>\<^verbatim>\<open>{ ...item, actualStock: actual }\<close>\<close>
  "withActual item actual =
     \<lparr>sci_ingredientId = sci_ingredientId item, ingredientName = ingredientName item,
      sci_unit = sci_unit item, expectedStock = expectedStock item,
      actualStock = actual, sci_unitCost = sci_unitCost item\<rparr>"

definition finalizeItem ::
  "real \<times> real StockCountItem list \<Rightarrow> real option StockCountItem
   \<Rightarrow> real \<times> real StockCountItem list" where
  "finalizeItem acc item =
     (case acc of (totalVariance, finalItems) \<Rightarrow>
        let actual = (case actualStock item of Some n \<Rightarrow> n | None \<Rightarrow> expectedStock item);
            variance = actual - expectedStock item
        in (totalVariance + variance * sci_unitCost item,
            finalItems @ [withActual item actual]))"

definition handleFinalizeCount ::
  "bool \<Rightarrow> bool \<Rightarrow> string \<Rightarrow> string \<Rightarrow> real option StockCountItem list
   \<Rightarrow> Ingredient list \<times> StockCount list \<Rightarrow> Ingredient list \<times> StockCount list" where
  "handleFinalizeCount confirmFinalize confirmApply now nowMs countItems state =
     (case state of (ingredients, stockCounts) \<Rightarrow>
      if \<not> confirmFinalize then state
      else
        case foldl finalizeItem (0, []) countItems of (totalVariance, finalItems) \<Rightarrow>
        let newCount =
              \<lparr>sc_id = ''sc_'' @ nowMs, sc_timestamp = now,
               sc_items = map (\<lambda>item. withActual item (Some (actualStock item))) finalItems,
               totalVarianceValue = totalVariance\<rparr>
        in if confirmApply then
             (map (\<lambda>ing.
                case find (\<lambda>ci. sci_ingredientId ci = ing_id ing) finalItems of
                  None \<Rightarrow> ing
                | Some countedItem \<Rightarrow>
                    ing\<lparr>stockHistory :=
                      [\<lparr>date = now, quantity = actualStock countedItem,
                        unitCost = sci_unitCost countedItem\<rparr>]\<rparr>) ingredients,
              newCount # stockCounts)
           else (ingredients, newCount # stockCounts))"

subsection \<open>Sale: the stock deduction of \<^verbatim>\<open>handleFinalizeTransaction\<close>\<close>

text \<open>\<^verbatim>\<open>findIndex\<close> gives the first position, or \<^verbatim>\<open>-1\<close>, here \<^const>\<open>None\<close>.\<close>

fun findIndex :: "('a \<Rightarrow> bool) \<Rightarrow> 'a list \<Rightarrow> nat option" where
  "findIndex P [] = None"
| "findIndex P (x # xs) = (if P x then Some 0 else map_option Suc (findIndex P xs))"

text \<open>
  \<^verbatim>\<open>processIngredient\<close> pushes a batch onto the history of an ingredient of the working copy
  \<^verbatim>\<open>updatedIngredients\<close>, which the model passes in and returns.
\<close>

definition processIngredient ::
  "string \<Rightarrow> Ingredient list \<Rightarrow> string \<Rightarrow> real \<Rightarrow> real \<Rightarrow> Ingredient list" where
  "processIngredient now updatedIngredients ident qty avgCost =
     (case findIndex (\<lambda>i. ing_id i = ident) updatedIngredients of
        Some ingIndex \<Rightarrow>
          updatedIngredients[ingIndex :=
            (updatedIngredients ! ingIndex)
              \<lparr>stockHistory := stockHistory (updatedIngredients ! ingIndex) @
                 [\<lparr>date = now, quantity = - qty, unitCost = avgCost\<rparr>]\<rparr>]
      | None \<Rightarrow> updatedIngredients)"

text \<open>
  Step 1 of \<^verbatim>\<open>handleFinalizeTransaction\<close> (``Deduct inventory''): the value it passes to
  \<^verbatim>\<open>setIngredients\<close>. Ingredients and their average costs are read from \<open>ingredients\<close>,
  the state at the start of the sale; batches are pushed onto the working copy. The
  later steps record the transaction and the kitchen order and do not touch the ledger.
\<close>

definition handleFinalizeTransaction ::
  "string \<Rightarrow> Ingredient list \<Rightarrow> Product list \<Rightarrow> CartItem list \<Rightarrow> Ingredient list" where
  "handleFinalizeTransaction now ingredients inventory cart =
     foldl (\<lambda>updatedIngredients cartItem.
        case cart_type cartItem of
          PRODUCT \<Rightarrow>
            (case find (\<lambda>p. prod_id p = itemId cartItem) inventory of
               None \<Rightarrow> updatedIngredients
             | Some product \<Rightarrow>
                 foldl (\<lambda>updated recipeItem.
                    case find (\<lambda>i. ing_id i = ingredientId recipeItem) ingredients of
                      None \<Rightarrow> updated
                    | Some ingredient \<Rightarrow>
                        let quantityToDecrement =
                              recipe_quantity recipeItem * cart_quantity cartItem
                        in processIngredient now updated (ingredientId recipeItem)
                             quantityToDecrement (getIngredientAverageCost ingredient))
                   updatedIngredients (prod_recipe product))
        | INGREDIENT \<Rightarrow>
            (case find (\<lambda>i. ing_id i = itemId cartItem) ingredients of
               None \<Rightarrow> updatedIngredients
             | Some ingredient \<Rightarrow>
                 processIngredient now updatedIngredients (itemId cartItem)
                   (cart_quantity cartItem) (getIngredientAverageCost ingredient)))
       ingredients cart"

text \<open>
  The deductions of a sale, after the specification, each as the triple of the
  ingredient id, the quantity deducted and the unit cost recorded. A cart line of kind
  \<open>PRODUCT\<close> gives, for every line of the product's recipe, the recipe quantity times the
  cart quantity; a cart line of kind \<open>INGREDIENT\<close> gives the cart quantity. The cost is
  the average cost of the ingredient in \<open>ingredients\<close>, the ledger at the start of the
  sale. A line naming no product or no ingredient gives nothing.
\<close>

definition cartLineDeductions ::
  "Ingredient list \<Rightarrow> Product list \<Rightarrow> CartItem \<Rightarrow> (string \<times> real \<times> real) list" where
  "cartLineDeductions ingredients inventory cartLine =
     (case cart_type cartLine of
        PRODUCT \<Rightarrow>
          (case find (\<lambda>p. prod_id p = itemId cartLine) inventory of
             None \<Rightarrow> []
           | Some product \<Rightarrow>
               concat (map (\<lambda>recipeLine.
                 case find (\<lambda>i. ing_id i = ingredientId recipeLine) ingredients of
                   None \<Rightarrow> []
                 | Some ingredient \<Rightarrow>
                     [(ingredientId recipeLine,
                       recipe_quantity recipeLine * cart_quantity cartLine,
                       getIngredientAverageCost ingredient)])
                 (prod_recipe product)))
      | INGREDIENT \<Rightarrow>
          (case find (\<lambda>i. ing_id i = itemId cartLine) ingredients of
             None \<Rightarrow> []
           | Some ingredient \<Rightarrow>
               [(itemId cartLine, cart_quantity cartLine,
                 getIngredientAverageCost ingredient)]))"

definition saleDeductions ::
  "Ingredient list \<Rightarrow> Product list \<Rightarrow> CartItem list \<Rightarrow> (string \<times> real \<times> real) list" where
  "saleDeductions ingredients inventory cart =
     concat (map (cartLineDeductions ingredients inventory) cart)"

subsection \<open>Example ledgers\<close>

definition flour_oversold :: Ingredient where
  "flour_oversold =
     \<lparr>ing_id = ''flour'', ing_name = ''Flour'', ing_unit = ''g'', ing_price = 0,
      lowStockThreshold = 0,
      stockHistory =
        [\<lparr>date = ''d1'', quantity = 10, unitCost = 1\<rparr>,
         \<lparr>date = ''d2'', quantity = - 15, unitCost = 1\<rparr>]\<rparr>"

definition flour_fresh :: Ingredient where
  "flour_fresh =
     \<lparr>ing_id = ''flour'', ing_name = ''Flour'', ing_unit = ''g'', ing_price = 0,
      lowStockThreshold = 0,
      stockHistory = [\<lparr>date = ''d1'', quantity = 10, unitCost = 1\<rparr>]\<rparr>"

definition flour_sold :: Ingredient where
  "flour_sold =
     \<lparr>ing_id = ''flour'', ing_name = ''Flour'', ing_unit = ''g'', ing_price = 0,
      lowStockThreshold = 0,
      stockHistory =
        [\<lparr>date = ''d1'', quantity = 10, unitCost = 1\<rparr>,
         \<lparr>date = ''d2'', quantity = - 5, unitCost = 1\<rparr>,
         \<lparr>date = ''d3'', quantity = 10, unitCost = 3\<rparr>]\<rparr>"


definition flour_sale :: Ingredient where
  "flour_sale =
     \<lparr>ing_id = ''flour'', ing_name = ''Flour'', ing_unit = ''g'', ing_price = 0,
      lowStockThreshold = 0,
      stockHistory =
        [\<lparr>date = ''d1'', quantity = 10, unitCost = 1\<rparr>,
         \<lparr>date = ''d2'', quantity = - 4, unitCost = 1\<rparr>]\<rparr>"

definition flour_restocked :: Ingredient where
  "flour_restocked =
     \<lparr>ing_id = ''flour'', ing_name = ''Flour'', ing_unit = ''g'', ing_price = 0,
      lowStockThreshold = 0,
      stockHistory =
        [\<lparr>date = ''d1'', quantity = 10, unitCost = 1\<rparr>,
         \<lparr>date = ''d2'', quantity = - 4, unitCost = 1\<rparr>,
         \<lparr>date = ''d3'', quantity = 4, unitCost = 1\<rparr>]\<rparr>"

definition restock_form :: IngredientFormData where
  "restock_form =
     \<lparr>form_id = ''flour'', form_name = ''Flour'', form_unit = ''g'', form_price = None,
      form_lowStockThreshold = None, form_stock = None, form_totalCost = None,
      form_addQuantity = Some 4, form_addTotalCost = Some 4\<rparr>"

definition flour_bulk_added_zero :: Ingredient where
  "flour_bulk_added_zero =
     \<lparr>ing_id = ''flour'', ing_name = ''Flour'', ing_unit = ''g'', ing_price = 0,
      lowStockThreshold = 0,
      stockHistory =
        [\<lparr>date = ''d1'', quantity = 10, unitCost = 1\<rparr>,
         \<lparr>date = ''d2'', quantity = 0, unitCost = 0\<rparr>]\<rparr>"

definition bread :: Product where
  "bread =
     \<lparr>prod_id = ''bread'', prod_name = ''Bread'', prod_price = 60, prod_quantity = 0,
      prod_cost = 0, prod_type = Type_PRODUCT,
      prod_recipe = [\<lparr>ingredientId = ''flour'', recipe_quantity = 2\<rparr>],
      prod_timestamp = None\<rparr>"

definition sale_cart :: "CartItem list" where
  "sale_cart =
     [\<lparr>itemId = ''bread'', cart_name = ''Bread'', cart_price = 60, cart_quantity = 5,
       cart_type = PRODUCT\<rparr>,
      \<lparr>itemId = ''flour'', cart_name = ''Flour'', cart_price = 2, cart_quantity = 3,
       cart_type = INGREDIENT\<rparr>]"



text \<open>The binary64 numbers that the source reads from \<^verbatim>\<open>0.1\<close> and \<^verbatim>\<open>0.4\<close>.\<close>

definition tenth64 :: real where
  "tenth64 = 3602879701896397 / 36028797018963968"

definition fourTenths64 :: real where
  "fourTenths64 = 3602879701896397 / 9007199254740992"





definition sugar :: Ingredient where
  "sugar =
     \<lparr>ing_id = ''sugar'', ing_name = ''Sugar'', ing_unit = ''kg'', ing_price = 0,
      lowStockThreshold = 0,
      stockHistory =
        [\<lparr>date = ''d1'', quantity = 1, unitCost = tenth64\<rparr>,
         \<lparr>date = ''d2'', quantity = 2, unitCost = fourTenths64\<rparr>]\<rparr>"

text \<open>
  The binary64 number read from \<^verbatim>\<open>0.3\<close>, which is the average cost of \<open>sugar\<close>; \<open>sugar\<close>
  after a sale of 1 at that cost and a restock of 1 at that cost; \<open>sugar\<close> after the sale
  alone, and the form that restocks 1 for a total cost of 0.3.
\<close>

definition threeTenths64 :: real where
  "threeTenths64 = 5404319552844595 / 18014398509481984"

definition sugar_round_trip :: Ingredient where
  "sugar_round_trip =
     sugar\<lparr>stockHistory := stockHistory sugar @
       [\<lparr>date = ''d3'', quantity = - 1, unitCost = threeTenths64\<rparr>,
        \<lparr>date = ''d4'', quantity = 1, unitCost = threeTenths64\<rparr>]\<rparr>"

definition sugar_sale :: Ingredient where
  "sugar_sale =
     sugar\<lparr>stockHistory := stockHistory sugar @
       [\<lparr>date = ''d3'', quantity = - 1, unitCost = threeTenths64\<rparr>]\<rparr>"

definition sugar_restock_form :: IngredientFormData where
  "sugar_restock_form =
     \<lparr>form_id = ''sugar'', form_name = ''Sugar'', form_unit = ''kg'', form_price = None,
      form_lowStockThreshold = None, form_stock = None, form_totalCost = None,
      form_addQuantity = Some 1, form_addTotalCost = Some threeTenths64\<rparr>"

definition bulk_stock :: "int \<Rightarrow> BulkData" where
  "bulk_stock v =
     \<lparr>data_price = None, data_lowStockThreshold = None, data_stock = IntValue v,
      data_cost = None\<rparr>"

subsection \<open>Histories of acquisitions and consumptions at average cost, without rounding\<close>



subsection \<open>Sums of a ledger\<close>

lemma foldl_add_sum_list:
  fixes f :: "'a \<Rightarrow> real"
  shows "foldl (\<lambda>sum record. sum + f record) a xs = a + sum_list (map f xs)"
  by (induction xs arbitrary: a) (simp_all add: add.assoc)

lemma total_stock_sum:
  "getIngredientTotalStock ingredient = (\<Sum>b\<leftarrow>stockHistory ingredient. quantity b)"
  by (simp add: getIngredientTotalStock_def foldl_add_sum_list)

lemma average_cost_sum:
  "getIngredientAverageCost ingredient =
     (if (\<Sum>b\<leftarrow>stockHistory ingredient. quantity b) \<le> 0 then 0
      else (\<Sum>b\<leftarrow>stockHistory ingredient. quantity b * unitCost b)
           / (\<Sum>b\<leftarrow>stockHistory ingredient. quantity b))"
  by (simp add: getIngredientAverageCost_def Let_def total_stock_sum foldl_add_sum_list)

subsection \<open>Weighted-average cost\<close>

text \<open>
  C1. For every ingredient, the total stock is the sum of all batch quantities (0 for an
  empty history); the average cost is 0 when the total stock is at most 0, and otherwise
  the sum of quantity times unit cost over all batches, positive and negative, divided by
  the total stock.
\<close>

theorem average_cost_weighted:
  "getIngredientTotalStock ingredient = (\<Sum>b\<leftarrow>stockHistory ingredient. quantity b)
   \<and> getIngredientTotalStock (ingredient\<lparr>stockHistory := []\<rparr>) = 0
   \<and> getIngredientAverageCost ingredient =
       (if getIngredientTotalStock ingredient \<le> 0 then 0
        else (\<Sum>b\<leftarrow>stockHistory ingredient. quantity b * unitCost b)
             / getIngredientTotalStock ingredient)"
proof (intro conjI)
  show total: "getIngredientTotalStock ingredient = (\<Sum>b\<leftarrow>stockHistory ingredient. quantity b)"
    unfolding getIngredientTotalStock_def by (simp add: foldl_add_sum_list)
  show "getIngredientTotalStock (ingredient\<lparr>stockHistory := []\<rparr>) = 0"
    unfolding getIngredientTotalStock_def by simp
  have cost: "foldl (\<lambda>sum record. sum + quantity record * unitCost record) 0
                (stockHistory ingredient)
              = (\<Sum>b\<leftarrow>stockHistory ingredient. quantity b * unitCost b)"
    by (simp add: foldl_add_sum_list)
  show "getIngredientAverageCost ingredient =
       (if getIngredientTotalStock ingredient \<le> 0 then 0
        else (\<Sum>b\<leftarrow>stockHistory ingredient. quantity b * unitCost b)
             / getIngredientTotalStock ingredient)"
    unfolding getIngredientAverageCost_def Let_def cost by simp
qed

subsection \<open>Sums and averages of example ledgers\<close>

lemma average_cost_ratio:
  "getIngredientAverageCost ing =
     (if getIngredientTotalStock ing \<le> 0 then 0
      else (\<Sum>b\<leftarrow>stockHistory ing. quantity b * unitCost b) / getIngredientTotalStock ing)"
  by (simp add: average_cost_sum total_stock_sum)

lemma flour_sold_total: "getIngredientTotalStock flour_sold = 15"
  by (simp add: getIngredientTotalStock_def flour_sold_def)

lemma flour_sold_average: "getIngredientAverageCost flour_sold = 7 / 3"
  by (simp add: getIngredientAverageCost_def getIngredientTotalStock_def flour_sold_def)

lemma flour_fresh_total: "getIngredientTotalStock flour_fresh = 10"
  by (simp add: getIngredientTotalStock_def flour_fresh_def)

lemma flour_fresh_average: "getIngredientAverageCost flour_fresh = 1"
  by (simp add: getIngredientAverageCost_def getIngredientTotalStock_def flour_fresh_def)

subsection \<open>Rounding to binary64\<close>

lemma bitlen_pos: "0 < n \<Longrightarrow> 1 \<le> bitlen n"
  using bitlen_eq_zero_iff [of n] bitlen_nonneg [of n] by linarith

lemma ilog2_bounds:
  assumes "0 < x"
  shows "2 powi ilog2 x \<le> x" and "x < 2 powi (ilog2 x + 1)"
proof -
  have "2 powi ilog2 x \<le> x \<and> x < 2 powi (ilog2 x + 1)"
  proof (cases "1 \<le> x")
    case True
    let ?n = "\<lfloor>x\<rfloor>"
    from True have n: "0 < ?n" by simp
    let ?b = "bitlen ?n"
    from bitlen_pos [OF n] have b: "1 \<le> ?b" .
    from bitlen_bounds [OF n] have lo: "2 ^ nat (?b - 1) \<le> ?n" and hi: "?n < 2 ^ nat ?b"
      by simp_all
    have "(2::real) ^ nat (?b - 1) \<le> of_int ?n"
      using lo by (metis of_int_le_iff of_int_numeral of_int_power)
    also have "\<dots> \<le> x" by simp
    finally have l: "(2::real) powi (?b - 1) \<le> x"
      using b by (simp add: power_int_def)
    from hi have "?n + 1 \<le> 2 ^ nat ?b" by simp
    then have "of_int (?n + 1) \<le> (2::real) ^ nat ?b"
      by (metis of_int_le_iff of_int_numeral of_int_power)
    moreover have "x < of_int (?n + 1)" by linarith
    ultimately have "x < (2::real) ^ nat ?b" by linarith
    then have u: "x < (2::real) powi ?b"
      using b by (simp add: power_int_def)
    from True l u show ?thesis
      by (simp add: ilog2_def)
  next
    case False
    let ?r = "1 / x"
    from False assms have r: "1 < ?r" by simp
    let ?n = "\<lceil>?r\<rceil> - 1"
    from r have n: "0 < ?n" by linarith
    have nr: "of_int ?n < ?r" "?r \<le> of_int ?n + 1" by linarith+
    let ?b = "bitlen ?n"
    from bitlen_pos [OF n] have b: "1 \<le> ?b" .
    from bitlen_bounds [OF n] have lo: "2 ^ nat (?b - 1) \<le> ?n" and hi: "?n < 2 ^ nat ?b"
      by simp_all
    from hi have "?n + 1 \<le> 2 ^ nat ?b" by simp
    then have "of_int (?n + 1) \<le> (2::real) ^ nat ?b"
      by (metis of_int_le_iff of_int_numeral of_int_power)
    with nr(2) have "?r \<le> (2::real) ^ nat ?b"
      unfolding of_int_add of_int_1 by (rule order_trans)
    with assms have "1 / (2::real) ^ nat ?b \<le> x"
      by (simp add: field_simps)
    then have l: "(2::real) powi (- ?b) \<le> x"
      using b by (simp add: power_int_def field_simps)
    have "(2::real) ^ nat (?b - 1) \<le> of_int ?n"
      using lo by (metis of_int_le_iff of_int_numeral of_int_power)
    with nr(1) have "(2::real) ^ nat (?b - 1) < ?r" by linarith
    with assms have "x < 1 / (2::real) ^ nat (?b - 1)"
      by (simp add: field_simps)
    moreover have "(2::real) powi (- ?b + 1) = 1 / 2 ^ nat (?b - 1)"
      using b by (simp add: power_int_def field_simps nat_diff_distrib)
    ultimately have u: "x < (2::real) powi (- ?b + 1)" by simp
    from False l u show ?thesis
      by (simp add: ilog2_def)
  qed
  then show "2 powi ilog2 x \<le> x" and "x < 2 powi (ilog2 x + 1)"
    by simp_all
qed

lemma roundHalfEven_of_int [simp]: "roundHalfEven (of_int m) = m"
  by (simp add: roundHalfEven_def)

lemma roundHalfEven_le: "x \<le> of_int n \<Longrightarrow> roundHalfEven x \<le> n"
  unfolding roundHalfEven_def Let_def by (auto; linarith)

lemma roundHalfEven_ge: "of_int n \<le> x \<Longrightarrow> n \<le> roundHalfEven x"
  unfolding roundHalfEven_def Let_def by (auto; linarith)


lemma round64_minus: "round64 (- x) = map_option uminus (round64 x)"
  by (simp add: round64_def Let_def)

lemma power_int_2_less_cancel:
  assumes "(2::real) powi a < 2 powi b"
  shows "a < b"
proof (rule ccontr)
  assume "\<not> a < b"
  then have "b \<le> a" by simp
  then have "(2::real) powi b \<le> 2 powi a"
    by (intro power_int_increasing) simp_all
  with assms show False by simp
qed

lemma round64_representable:
  assumes m: "0 < m" "m < 2 ^ 53" and e: "- 1074 \<le> e"
    and fin: "of_int m * 2 powi e < (2::real) ^ 1024"
  shows "round64 (of_int m * 2 powi e) = Some (of_int m * 2 powi e)"
proof -
  let ?y = "of_int m * (2::real) powi e"
  have pos: "0 < ?y"
    using m(1) by (simp add: zero_less_power_int)
  then have abs_y: "\<bar>?y\<bar> = ?y"
    by (rule abs_of_pos)
  let ?e = "max (ilog2 \<bar>?y\<bar> - 52) (- 1074)"
  have "of_int m < (2::real) ^ 53"
    using m(2) by (metis of_int_less_iff of_int_numeral of_int_power)
  then have "?y < 2 ^ 53 * 2 powi e"
    by (simp add: zero_less_power_int)
  also have "\<dots> = 2 powi (e + 53)"
    by (simp add: power_int_add)
  finally have "2 powi ilog2 ?y < (2::real) powi (e + 53)"
    using ilog2_bounds(1) [OF pos] by linarith
  then have "ilog2 ?y < e + 53"
    by (rule power_int_2_less_cancel)
  with e have le: "?e \<le> e"
    unfolding abs_y by simp
  have "(2::real) powi e = 2 powi (e - ?e) * 2 powi ?e"
    by (simp flip: power_int_add)
  also have "(2::real) powi (e - ?e) = 2 ^ nat (e - ?e)"
    using le by (simp add: power_int_def)
  finally have split: "?y = of_int (m * 2 ^ nat (e - ?e)) * 2 powi ?e"
    by simp
  have "?y / 2 powi ?e = of_int (m * 2 ^ nat (e - ?e))"
    by (subst split) simp
  then have "roundHalfEven (\<bar>?y\<bar> / 2 powi ?e) = m * 2 ^ nat (e - ?e)"
    by (simp only: abs_y roundHalfEven_of_int)
  then have "of_int (roundHalfEven (\<bar>?y\<bar> / 2 powi ?e)) * 2 powi ?e
             = of_int (m * 2 ^ nat (e - ?e)) * (2::real) powi ?e"
    by (rule arg_cong)
  also note split [symmetric]
  finally have same: "of_int (roundHalfEven (\<bar>?y\<bar> / 2 powi ?e)) * 2 powi ?e = ?y" .
  have ne: "?y \<noteq> 0" and nneg: "\<not> ?y < 0" and nov: "\<not> 2 ^ 1024 \<le> ?y"
    using pos fin by linarith+
  show ?thesis
    unfolding round64_def Let_def same using ne nneg nov by (simp only: if_False)
qed


lemma round64_zero [simp]: "round64 0 = Some 0"
  by (simp add: round64_def)

lemma round64_idem:
  assumes "round64 x = Some y"
  shows "round64 y = Some y"
proof (cases "x = 0")
  case True
  with assms show ?thesis by simp
next
  case False
  let ?a = "\<bar>x\<bar>"
  let ?e = "max (ilog2 ?a - 52) (- 1074)"
  let ?m = "roundHalfEven (?a / 2 powi ?e)"
  let ?Y = "of_int ?m * (2::real) powi ?e"
  from False have a: "0 < ?a" by simp
  have def: "round64 x = (if 2 ^ 1024 \<le> ?Y then None else Some (if x < 0 then - ?Y else ?Y))"
    unfolding round64_def Let_def using False by (simp only: if_False)
  with assms have fin: "?Y < 2 ^ 1024" and y: "y = (if x < 0 then - ?Y else ?Y)"
    by (auto split: if_splits simp del: of_int_power)
  have e: "- 1074 \<le> ?e" by simp
  have "0 \<le> ?a / 2 powi ?e"
    by (simp add: zero_le_power_int)
  then have m0: "0 \<le> ?m"
    using roundHalfEven_ge [of 0] by simp
  have "?a < 2 powi (ilog2 ?a + 1)"
    by (rule ilog2_bounds(2) [OF a])
  also have "\<dots> \<le> (2::real) powi (?e + 53)"
    by (intro power_int_increasing) simp_all
  also have "\<dots> = 2 ^ 53 * 2 powi ?e"
    by (simp add: power_int_add)
  finally have "?a / 2 powi ?e < 2 ^ 53"
    by (simp add: zero_less_power_int pos_divide_less_eq)
  then have "?a / 2 powi ?e \<le> of_int (2 ^ 53)"
    by simp
  then have m53: "?m \<le> 2 ^ 53"
    by (rule roundHalfEven_le)
  have Y: "round64 ?Y = Some ?Y"
  proof -
    consider "?m = 0" | "0 < ?m" "?m < 2 ^ 53" | "?m = 2 ^ 53"
      using m0 m53 by linarith
    then show ?thesis
    proof cases
      case 1
      then show ?thesis by simp
    next
      case 2
      then show ?thesis
        using e fin by (rule round64_representable)
    next
      case 3
      have eq: "?Y = of_int (2 ^ 52) * (2::real) powi (?e + 1)"
        unfolding 3 by (simp add: power_int_add)
      have "round64 (of_int (2 ^ 52) * (2::real) powi (?e + 1))
            = Some (of_int (2 ^ 52) * (2::real) powi (?e + 1))"
        using fin unfolding eq by (intro round64_representable) simp_all
      then show ?thesis
        unfolding eq .
    qed
  qed
  show ?thesis
  proof (cases "x < 0")
    case True
    with y have "y = - ?Y" by simp
    then show ?thesis
      using Y by (simp only: round64_minus option.map)
  next
    case False
    with y have "y = ?Y" by simp
    then show ?thesis
      using Y by (simp only:)
  qed
qed












lemma ilog2_unique:
  assumes "2 powi k \<le> x" and "x < 2 powi (k + 1)"
  shows "ilog2 x = k"
proof -
  have "0 < (2::real) powi k"
    by (simp add: zero_less_power_int)
  with assms(1) have x: "0 < x" by linarith
  have "2 powi ilog2 x \<le> x"
    by (rule ilog2_bounds(1) [OF x])
  with assms(2) have "(2::real) powi ilog2 x < 2 powi (k + 1)"
    by linarith
  then have "ilog2 x < k + 1"
    by (rule power_int_2_less_cancel)
  moreover have "x < 2 powi (ilog2 x + 1)"
    by (rule ilog2_bounds(2) [OF x])
  with assms(1) have "(2::real) powi k < 2 powi (ilog2 x + 1)"
    by linarith
  then have "k < ilog2 x + 1"
    by (rule power_int_2_less_cancel)
  ultimately show ?thesis by simp
qed

lemma roundHalfEven_nearest:
  assumes "\<bar>x - of_int m\<bar> < 1 / 2"
  shows "roundHalfEven x = m"
proof (cases "of_int m \<le> x")
  case True
  with assms have "\<lfloor>x\<rfloor> = m"
    by (intro floor_unique) linarith+
  with True assms show ?thesis
    by (simp add: roundHalfEven_def Let_def)
next
  case False
  with assms have "of_int m - 1 \<le> x" and "x < of_int m - 1 + 1"
    by linarith+
  then have f: "\<lfloor>x\<rfloor> = m - 1"
    by (intro floor_unique) simp_all
  from False assms have "1 / 2 < x - of_int (m - 1)"
    by simp
  with f show ?thesis
    by (simp add: roundHalfEven_def Let_def)
qed

lemma roundHalfEven_tie:
  assumes "x = of_int f + 1 / 2"
  shows "roundHalfEven x = (if even f then f else f + 1)"
proof -
  have "\<lfloor>x\<rfloor> = f"
    unfolding assms by (intro floor_unique) simp_all
  then show ?thesis
    by (simp add: roundHalfEven_def Let_def assms)
qed

text \<open>
  Evaluating \<open>round64\<close> on a number of the normal range below \<open>2 ^ 53\<close>: \<open>u\<close>, the unit in
  the last place, is \<open>1 / 2 ^ k\<close>, and \<open>m\<close> is \<open>\<bar>x\<bar> / u\<close> rounded to an integer.
\<close>

lemma round64_eval_rounded:
  assumes u: "u * 2 ^ k = 1" and k: "k \<le> 1074"
    and lo: "2 ^ 52 * u \<le> \<bar>x\<bar>" and hi: "\<bar>x\<bar> < 2 ^ 53 * u"
    and m: "roundHalfEven (\<bar>x\<bar> / u) = m"
    and y: "y = (if x < 0 then - (of_int m * u) else of_int m * u)"
  shows "round64 x = Some y"
proof -
  let ?e = "- int k"
  have "u = (u * 2 ^ k) / 2 ^ k"
    by simp
  then have "u = 1 / 2 ^ k"
    unfolding u .
  then have ue: "u = 2 powi ?e"
    by (simp add: power_int_minus inverse_eq_divide)
  have upos: "0 < u"
    unfolding ue by (simp add: zero_less_power_int)
  then have "0 < 2 ^ 52 * u"
    by simp
  with lo have "0 < \<bar>x\<bar>"
    by linarith
  then have x: "x \<noteq> 0" by simp
  have "(2::real) powi (?e + 52) = 2 powi ?e * 2 powi 52"
    by (rule power_int_add) simp
  then have p52: "(2::real) powi (?e + 52) = 2 ^ 52 * u"
    unfolding ue by (simp add: mult.commute)
  have "(2::real) powi (?e + 52 + 1) = 2 powi ?e * 2 powi 53"
    using power_int_add [of "2::real" ?e 53] by (simp add: add.assoc)
  then have p53: "(2::real) powi (?e + 52 + 1) = 2 ^ 53 * u"
    unfolding ue by (simp add: mult.commute)
  from lo hi have "ilog2 \<bar>x\<bar> = ?e + 52"
    by (intro ilog2_unique) (simp_all only: p52 p53)
  with k have ee: "max (ilog2 \<bar>x\<bar> - 52) (- 1074) = ?e"
    by simp
  have mm: "roundHalfEven (\<bar>x\<bar> / 2 powi ?e) = m"
    using m unfolding ue .
  from hi upos have "\<bar>x\<bar> / u \<le> of_int (2 ^ 53)"
    by (simp add: pos_divide_le_eq)
  then have "roundHalfEven (\<bar>x\<bar> / u) \<le> 2 ^ 53"
    by (rule roundHalfEven_le)
  then have "m \<le> 2 ^ 53"
    unfolding m .
  then have "of_int m \<le> (of_int (2 ^ 53) :: real)"
    by (simp only: of_int_le_iff)
  then have m53: "of_int m \<le> (2::real) ^ 53"
    by simp
  have "u \<le> 1"
    unfolding \<open>u = 1 / 2 ^ k\<close> by simp
  with m53 upos have "of_int m * u \<le> 2 ^ 53 * 1"
    by (intro mult_mono) simp_all
  also have "\<dots> < (2::real) ^ 1024"
    by simp
  finally have fin: "\<not> (2::real) ^ 1024 \<le> of_int m * 2 powi ?e"
    unfolding ue by (simp only: not_le)
  show ?thesis
    unfolding round64_def Let_def ee mm y ue using x fin by (simp only: if_False)
qed

text \<open>Off a tie, \<open>m\<close> is the integer nearest to \<open>\<bar>x\<bar> / u\<close>.\<close>

lemma round64_eval:
  assumes "u * 2 ^ k = 1" and "k \<le> 1074"
    and "2 ^ 52 * u \<le> \<bar>x\<bar>" and "\<bar>x\<bar> < 2 ^ 53 * u"
    and "\<bar>\<bar>x\<bar> / u - of_int m\<bar> < 1 / 2"
    and "y = (if x < 0 then - (of_int m * u) else of_int m * u)"
  shows "round64 x = Some y"
  using assms(1-4) roundHalfEven_nearest [OF assms(5)] assms(6)
  by (rule round64_eval_rounded)

text \<open>On a tie, halfway between \<open>f\<close> and \<open>f + 1\<close>, \<open>m\<close> is the even one of the two.\<close>

lemma round64_eval_tie:
  assumes "u * 2 ^ k = 1" and "k \<le> 1074"
    and "2 ^ 52 * u \<le> \<bar>x\<bar>" and "\<bar>x\<bar> < 2 ^ 53 * u"
    and "\<bar>x\<bar> / u = of_int f + 1 / 2"
    and "m = (if even f then f else f + 1)"
    and "y = (if x < 0 then - (of_int m * u) else of_int m * u)"
  shows "round64 x = Some y"
proof -
  have "roundHalfEven (\<bar>x\<bar> / u) = m"
    unfolding assms(6) using assms(5) by (rule roundHalfEven_tie)
  with assms(1-4) show ?thesis
    using assms(7) by (rule round64_eval_rounded)
qed

subsection \<open>The ledger's sums in binary64\<close>

lemma total64_push:
  "getIngredientTotalStock64 (ing\<lparr>stockHistory := stockHistory ing @ [b]\<rparr>)
     = Option.bind (getIngredientTotalStock64 ing) (\<lambda>s. add64 s (quantity b))"
  by (simp add: getIngredientTotalStock64_def)

lemma totalCost64_push:
  "totalCost64 (ing\<lparr>stockHistory := stockHistory ing @ [b]\<rparr>)
     = Option.bind (totalCost64 ing) (\<lambda>s.
         Option.bind (mul64 (quantity b) (unitCost b)) (\<lambda>p. add64 s p))"
  by (simp add: totalCost64_def)

lemma average64_sums:
  assumes "getIngredientTotalStock64 ing = Some T" and "totalCost64 ing = Some S"
  shows "getIngredientAverageCost64 ing = (if T \<le> 0 then Some 0 else div64 S T)"
  by (simp add: getIngredientAverageCost64_def assms)

text \<open>The two running sums are binary64 numbers.\<close>

lemma total64_fixed:
  assumes "getIngredientTotalStock64 ing = Some T"
  shows "round64 T = Some T"
proof (cases "stockHistory ing" rule: rev_cases)
  case Nil
  with assms show ?thesis
    by (simp add: getIngredientTotalStock64_def)
next
  case (snoc bs b)
  with assms obtain s where "round64 (s + quantity b) = Some T"
    by (auto simp: getIngredientTotalStock64_def add64_def Option.bind_eq_Some_conv)
  then show ?thesis
    by (rule round64_idem)
qed

lemma totalCost64_fixed:
  assumes "totalCost64 ing = Some S"
  shows "round64 S = Some S"
proof (cases "stockHistory ing" rule: rev_cases)
  case Nil
  with assms show ?thesis
    by (simp add: totalCost64_def)
next
  case (snoc bs b)
  with assms obtain s p where "round64 (s + p) = Some S"
    by (auto simp: totalCost64_def add64_def Option.bind_eq_Some_conv)
  then show ?thesis
    by (rule round64_idem)
qed

lemma sum64_same_history:
  assumes "stockHistory a = stockHistory b"
  shows "getIngredientTotalStock64 a = getIngredientTotalStock64 b"
    and "totalCost64 a = totalCost64 b"
  by (simp_all add: getIngredientTotalStock64_def totalCost64_def assms)






subsection \<open>Binary64 sums and averages of the example ledgers\<close>

text \<open>The named binary64 numbers are what the decimal literals 0.1, 0.4 and 0.3 denote.\<close>

lemma tenth64_rounded: "round64 (1 / 10) = Some tenth64"
  unfolding tenth64_def fourTenths64_def threeTenths64_def
  by (rule round64_eval [where k = 56 and m = 7205759403792794 and u = "1 / 72057594037927936"]) simp_all

lemma fourTenths64_rounded: "round64 (2 / 5) = Some fourTenths64"
  unfolding tenth64_def fourTenths64_def threeTenths64_def
  by (rule round64_eval [where k = 54 and m = 7205759403792794 and u = "1 / 18014398509481984"]) simp_all

lemma threeTenths64_rounded: "round64 (3 / 10) = Some threeTenths64"
  unfolding tenth64_def fourTenths64_def threeTenths64_def
  by (rule round64_eval [where k = 54 and m = 5404319552844595 and u = "1 / 18014398509481984"]) simp_all

lemma flour_fresh_total64: "getIngredientTotalStock64 flour_fresh = Some 10"
proof -
  have f1: "add64 0 10 = Some 10"
    unfolding add64_def tenth64_def fourTenths64_def threeTenths64_def
    by (rule round64_eval [where k = 49 and m = 5629499534213120 and u = "1 / 562949953421312"]) simp_all
  show ?thesis
    by (simp add: getIngredientTotalStock64_def flour_fresh_def f1)
qed

lemma flour_fresh_cost64: "totalCost64 flour_fresh = Some 10"
proof -
  have f1: "mul64 10 1 = Some 10"
    unfolding mul64_def tenth64_def fourTenths64_def threeTenths64_def
    by (rule round64_eval [where k = 49 and m = 5629499534213120 and u = "1 / 562949953421312"]) simp_all
  have f2: "add64 0 10 = Some 10"
    unfolding add64_def tenth64_def fourTenths64_def threeTenths64_def
    by (rule round64_eval [where k = 49 and m = 5629499534213120 and u = "1 / 562949953421312"]) simp_all
  show ?thesis
    by (simp add: totalCost64_def flour_fresh_def f1 f2)
qed

lemma flour_fresh_average64: "getIngredientAverageCost64 flour_fresh = Some 1"
proof -
  have f1: "div64 10 10 = Some 1"
  proof -
    have "div64 10 10 = round64 (10 / 10)"
      by (simp add: div64_def tenth64_def fourTenths64_def threeTenths64_def)
    also have "\<dots> = Some 1"
      unfolding tenth64_def fourTenths64_def threeTenths64_def
      by (rule round64_eval [where k = 52 and m = 4503599627370496 and u = "1 / 4503599627370496"]) simp_all
    finally show ?thesis .
  qed
  show ?thesis
    by (simp add: getIngredientAverageCost64_def flour_fresh_total64 flour_fresh_cost64 f1)
qed

lemma flour_restocked_total64: "getIngredientTotalStock64 flour_restocked = Some 10"
proof -
  have f1: "add64 0 10 = Some 10"
    unfolding add64_def tenth64_def fourTenths64_def threeTenths64_def
    by (rule round64_eval [where k = 49 and m = 5629499534213120 and u = "1 / 562949953421312"]) simp_all
  have f2: "add64 10 (- 4) = Some 6"
    unfolding add64_def tenth64_def fourTenths64_def threeTenths64_def
    by (rule round64_eval [where k = 50 and m = 6755399441055744 and u = "1 / 1125899906842624"]) simp_all
  have f3: "add64 6 4 = Some 10"
    unfolding add64_def tenth64_def fourTenths64_def threeTenths64_def
    by (rule round64_eval [where k = 49 and m = 5629499534213120 and u = "1 / 562949953421312"]) simp_all
  show ?thesis
    by (simp add: getIngredientTotalStock64_def flour_restocked_def f1 f2 f3)
qed

lemma flour_restocked_cost64: "totalCost64 flour_restocked = Some 10"
proof -
  have f1: "mul64 10 1 = Some 10"
    unfolding mul64_def tenth64_def fourTenths64_def threeTenths64_def
    by (rule round64_eval [where k = 49 and m = 5629499534213120 and u = "1 / 562949953421312"]) simp_all
  have f2: "add64 0 10 = Some 10"
    unfolding add64_def tenth64_def fourTenths64_def threeTenths64_def
    by (rule round64_eval [where k = 49 and m = 5629499534213120 and u = "1 / 562949953421312"]) simp_all
  have f3: "mul64 (- 4) 1 = Some (- 4)"
    unfolding mul64_def tenth64_def fourTenths64_def threeTenths64_def
    by (rule round64_eval [where k = 50 and m = 4503599627370496 and u = "1 / 1125899906842624"]) simp_all
  have f4: "add64 10 (- 4) = Some 6"
    unfolding add64_def tenth64_def fourTenths64_def threeTenths64_def
    by (rule round64_eval [where k = 50 and m = 6755399441055744 and u = "1 / 1125899906842624"]) simp_all
  have f5: "mul64 4 1 = Some 4"
    unfolding mul64_def tenth64_def fourTenths64_def threeTenths64_def
    by (rule round64_eval [where k = 50 and m = 4503599627370496 and u = "1 / 1125899906842624"]) simp_all
  have f6: "add64 6 4 = Some 10"
    unfolding add64_def tenth64_def fourTenths64_def threeTenths64_def
    by (rule round64_eval [where k = 49 and m = 5629499534213120 and u = "1 / 562949953421312"]) simp_all
  show ?thesis
    by (simp add: totalCost64_def flour_restocked_def f1 f2 f3 f4 f5 f6)
qed

lemma flour_restocked_average64: "getIngredientAverageCost64 flour_restocked = Some 1"
proof -
  have f1: "div64 10 10 = Some 1"
  proof -
    have "div64 10 10 = round64 (10 / 10)"
      by (simp add: div64_def tenth64_def fourTenths64_def threeTenths64_def)
    also have "\<dots> = Some 1"
      unfolding tenth64_def fourTenths64_def threeTenths64_def
      by (rule round64_eval [where k = 52 and m = 4503599627370496 and u = "1 / 4503599627370496"]) simp_all
    finally show ?thesis .
  qed
  show ?thesis
    by (simp add: getIngredientAverageCost64_def flour_restocked_total64 flour_restocked_cost64 f1)
qed




















lemma sugar_total64: "getIngredientTotalStock64 sugar = Some 3"
proof -
  have f1: "add64 0 1 = Some 1"
    unfolding add64_def tenth64_def fourTenths64_def threeTenths64_def
    by (rule round64_eval [where k = 52 and m = 4503599627370496 and u = "1 / 4503599627370496"]) simp_all
  have f2: "add64 1 2 = Some 3"
    unfolding add64_def tenth64_def fourTenths64_def threeTenths64_def
    by (rule round64_eval [where k = 51 and m = 6755399441055744 and u = "1 / 2251799813685248"]) simp_all
  show ?thesis
    by (simp add: getIngredientTotalStock64_def sugar_def f1 f2)
qed

lemma sugar_cost64: "totalCost64 sugar = Some (8106479329266893 / 9007199254740992)"
proof -
  have f1: "mul64 1 tenth64 = Some tenth64"
    unfolding mul64_def tenth64_def fourTenths64_def threeTenths64_def
    by (rule round64_eval [where k = 56 and m = 7205759403792794 and u = "1 / 72057594037927936"]) simp_all
  have f2: "add64 0 tenth64 = Some tenth64"
    unfolding add64_def tenth64_def fourTenths64_def threeTenths64_def
    by (rule round64_eval [where k = 56 and m = 7205759403792794 and u = "1 / 72057594037927936"]) simp_all
  have f3: "mul64 2 fourTenths64 = Some (3602879701896397 / 4503599627370496)"
    unfolding mul64_def tenth64_def fourTenths64_def threeTenths64_def
    by (rule round64_eval [where k = 53 and m = 7205759403792794 and u = "1 / 9007199254740992"]) simp_all
  have f4: "add64 tenth64 (3602879701896397 / 4503599627370496) = Some (8106479329266893 / 9007199254740992)"
    unfolding add64_def tenth64_def fourTenths64_def threeTenths64_def
    by (rule round64_eval [where k = 53 and m = 8106479329266893 and u = "1 / 9007199254740992"]) simp_all
  show ?thesis
    by (simp add: totalCost64_def sugar_def f1 f2 f3 f4)
qed

lemma sugar_average64: "getIngredientAverageCost64 sugar = Some threeTenths64"
proof -
  have f1: "div64 (8106479329266893 / 9007199254740992) 3 = Some threeTenths64"
  proof -
    have "div64 (8106479329266893 / 9007199254740992) 3 = round64 ((8106479329266893 / 9007199254740992) / 3)"
      by (simp add: div64_def tenth64_def fourTenths64_def threeTenths64_def)
    also have "\<dots> = Some threeTenths64"
      unfolding tenth64_def fourTenths64_def threeTenths64_def
      by (rule round64_eval [where k = 54 and m = 5404319552844595 and u = "1 / 18014398509481984"]) simp_all
    finally show ?thesis .
  qed
  show ?thesis
    by (simp add: getIngredientAverageCost64_def sugar_total64 sugar_cost64 f1)
qed

lemma sugar_round_trip_total64: "getIngredientTotalStock64 sugar_round_trip = Some 3"
proof -
  have f1: "add64 0 1 = Some 1"
    unfolding add64_def tenth64_def fourTenths64_def threeTenths64_def
    by (rule round64_eval [where k = 52 and m = 4503599627370496 and u = "1 / 4503599627370496"]) simp_all
  have f2: "add64 1 2 = Some 3"
    unfolding add64_def tenth64_def fourTenths64_def threeTenths64_def
    by (rule round64_eval [where k = 51 and m = 6755399441055744 and u = "1 / 2251799813685248"]) simp_all
  have f3: "add64 3 (- 1) = Some 2"
    unfolding add64_def tenth64_def fourTenths64_def threeTenths64_def
    by (rule round64_eval [where k = 51 and m = 4503599627370496 and u = "1 / 2251799813685248"]) simp_all
  have f4: "add64 2 1 = Some 3"
    unfolding add64_def tenth64_def fourTenths64_def threeTenths64_def
    by (rule round64_eval [where k = 51 and m = 6755399441055744 and u = "1 / 2251799813685248"]) simp_all
  show ?thesis
    by (simp add: getIngredientTotalStock64_def sugar_round_trip_def sugar_def f1 f2 f3 f4)
qed

lemma sugar_round_trip_cost64: "totalCost64 sugar_round_trip = Some (4053239664633447 / 4503599627370496)"
proof -
  have f1: "mul64 1 tenth64 = Some tenth64"
    unfolding mul64_def tenth64_def fourTenths64_def threeTenths64_def
    by (rule round64_eval [where k = 56 and m = 7205759403792794 and u = "1 / 72057594037927936"]) simp_all
  have f2: "add64 0 tenth64 = Some tenth64"
    unfolding add64_def tenth64_def fourTenths64_def threeTenths64_def
    by (rule round64_eval [where k = 56 and m = 7205759403792794 and u = "1 / 72057594037927936"]) simp_all
  have f3: "mul64 2 fourTenths64 = Some (3602879701896397 / 4503599627370496)"
    unfolding mul64_def tenth64_def fourTenths64_def threeTenths64_def
    by (rule round64_eval [where k = 53 and m = 7205759403792794 and u = "1 / 9007199254740992"]) simp_all
  have f4: "add64 tenth64 (3602879701896397 / 4503599627370496) = Some (8106479329266893 / 9007199254740992)"
    unfolding add64_def tenth64_def fourTenths64_def threeTenths64_def
    by (rule round64_eval [where k = 53 and m = 8106479329266893 and u = "1 / 9007199254740992"]) simp_all
  have f5: "mul64 (- 1) threeTenths64 = Some (- threeTenths64)"
    unfolding mul64_def tenth64_def fourTenths64_def threeTenths64_def
    by (rule round64_eval [where k = 54 and m = 5404319552844595 and u = "1 / 18014398509481984"]) simp_all
  have f6: "add64 (8106479329266893 / 9007199254740992) (- threeTenths64) = Some (1351079888211149 / 2251799813685248)"
    unfolding add64_def tenth64_def fourTenths64_def threeTenths64_def
    by (rule round64_eval_tie [where k = 53 and f = 5404319552844595 and m = 5404319552844596 and u = "1 / 9007199254740992"]) simp_all
  have f7: "mul64 1 threeTenths64 = Some threeTenths64"
    unfolding mul64_def tenth64_def fourTenths64_def threeTenths64_def
    by (rule round64_eval [where k = 54 and m = 5404319552844595 and u = "1 / 18014398509481984"]) simp_all
  have f8: "add64 (1351079888211149 / 2251799813685248) threeTenths64 = Some (4053239664633447 / 4503599627370496)"
    unfolding add64_def tenth64_def fourTenths64_def threeTenths64_def
    by (rule round64_eval_tie [where k = 53 and f = 8106479329266893 and m = 8106479329266894 and u = "1 / 9007199254740992"]) simp_all
  show ?thesis
    by (simp add: totalCost64_def sugar_round_trip_def sugar_def f1 f2 f3 f4 f5 f6 f7 f8)
qed

lemma sugar_round_trip_average64: "getIngredientAverageCost64 sugar_round_trip = Some (1351079888211149 / 4503599627370496)"
proof -
  have f1: "div64 (4053239664633447 / 4503599627370496) 3 = Some (1351079888211149 / 4503599627370496)"
  proof -
    have "div64 (4053239664633447 / 4503599627370496) 3 = round64 ((4053239664633447 / 4503599627370496) / 3)"
      by (simp add: div64_def tenth64_def fourTenths64_def threeTenths64_def)
    also have "\<dots> = Some (1351079888211149 / 4503599627370496)"
      unfolding tenth64_def fourTenths64_def threeTenths64_def
      by (rule round64_eval [where k = 54 and m = 5404319552844596 and u = "1 / 18014398509481984"]) simp_all
    finally show ?thesis .
  qed
  show ?thesis
    by (simp add: getIngredientAverageCost64_def sugar_round_trip_total64 sugar_round_trip_cost64 f1)
qed

subsection \<open>Bounds of the average cost\<close>




subsection \<open>Ledger conservation\<close>

lemma processIngredient_single:
  "processIngredient now [ing] (ing_id ing) qty avgCost
     = [ing\<lparr>stockHistory := stockHistory ing @ [\<lparr>date = now, quantity = - qty, unitCost = avgCost\<rparr>]\<rparr>]"
  by (simp add: processIngredient_def)

lemma handleSubmit_restock:
  assumes "handleSubmit toLowerCase now nowMs ingredients (Some ing) formData = Inr restocked"
    and "form_addQuantity formData = Some q" and "0 < q"
    and "form_addTotalCost formData = Some t"
    and "if 0 < t then div64 t q = Some c else c = 0"
  shows "stockHistory restocked = stockHistory ing @ [\<lparr>date = now, quantity = q, unitCost = c\<rparr>]"
  using assms
  by (auto simp: handleSubmit_def orZero_def Let_def split: if_splits option.splits)

lemma round_trip_sums:
  assumes T: "getIngredientTotalStock64 ing = Some T"
    and S: "totalCost64 ing = Some S"
    and p: "mul64 q c = Some p"
    and stock: "round64 (T - q) = Some (T - q)"
    and cost: "round64 (S - p) = Some (S - p)"
    and h: "stockHistory after = stockHistory ing @
              [\<lparr>date = d1, quantity = - q, unitCost = c\<rparr>,
               \<lparr>date = d2, quantity = q, unitCost = c\<rparr>]"
  shows "getIngredientTotalStock64 after = Some T" and "totalCost64 after = Some S"
proof -
  let ?sold = "ing\<lparr>stockHistory := stockHistory ing @ [\<lparr>date = d1, quantity = - q, unitCost = c\<rparr>]\<rparr>"
  let ?returned = "?sold\<lparr>stockHistory := stockHistory ?sold @ [\<lparr>date = d2, quantity = q, unitCost = c\<rparr>]\<rparr>"
  have same: "stockHistory after = stockHistory ?returned"
    by (simp add: h)
  have "getIngredientTotalStock64 ?sold = Some (T - q)"
    unfolding total64_push by (simp add: T add64_def stock)
  then have "getIngredientTotalStock64 ?returned = round64 T"
    unfolding total64_push [of ?sold] by (simp add: add64_def)
  then show "getIngredientTotalStock64 after = Some T"
    unfolding sum64_same_history(1) [OF same] by (simp add: total64_fixed [OF T])
  have "mul64 (- q) c = Some (- p)"
    using p by (simp add: mul64_def round64_minus)
  then have "totalCost64 ?sold = Some (S - p)"
    unfolding totalCost64_push by (simp add: S add64_def cost)
  then have "totalCost64 ?returned = round64 S"
    unfolding totalCost64_push [of ?sold] by (simp add: p add64_def)
  then show "totalCost64 after = Some S"
    unfolding sum64_same_history(2) [OF same] by (simp add: totalCost64_fixed [OF S])
qed

text \<open>
  C5, as the source has it. The claim as stated fails, because the operations round: the
  example after the theorem has an average cost before the sale and another after the
  restock. What holds: for any ingredient and any quantity \<open>q\<close>, pushing a consumption
  batch of \<open>- q\<close> at the ingredient's current average cost \<open>c\<close> and then a batch of \<open>+ q\<close>
  at that same unit cost gives back the total stock and the average cost from before the
  sale, whenever the two subtractions of the sale do not round: that of \<open>q\<close> from the
  total stock, and that of the batch's cost (\<open>q\<close> times \<open>c\<close>, as binary64 computes it)
  from the total cost. Through the code: the first batch is what \<^verbatim>\<open>processIngredient\<close>
  pushes at a sale of \<open>q\<close>, and the second is what \<^verbatim>\<open>handleSubmit\<close> pushes when the form
  adds the quantity \<open>q > 0\<close> for a total cost whose quotient by \<open>q\<close> is \<open>c\<close>.
\<close>

theorem ledger_conservation:
  assumes "getIngredientTotalStock64 ing = Some T"
    and "totalCost64 ing = Some S"
    and "getIngredientAverageCost64 ing = Some c"
    and "mul64 q c = Some p"
    and "round64 (T - q) = Some (T - q)"
    and "round64 (S - p) = Some (S - p)"
  shows "getIngredientTotalStock64
           (ing\<lparr>stockHistory := stockHistory ing @
              [\<lparr>date = d1, quantity = - q, unitCost = c\<rparr>,
               \<lparr>date = d2, quantity = q, unitCost = c\<rparr>]\<rparr>)
           = Some T
         \<and> getIngredientAverageCost64
           (ing\<lparr>stockHistory := stockHistory ing @
              [\<lparr>date = d1, quantity = - q, unitCost = c\<rparr>,
               \<lparr>date = d2, quantity = q, unitCost = c\<rparr>]\<rparr>)
           = Some c
         \<and> (0 < q
            \<and> processIngredient d1 [ing] (ing_id ing) q c = [sold]
            \<and> form_addQuantity formData = Some q
            \<and> form_addTotalCost formData = Some t
            \<and> (if 0 < t then div64 t q = Some c else c = 0)
            \<and> handleSubmit toLowerCase d2 nowMs ingredients (Some sold) formData
                = Inr restocked
            \<longrightarrow> getIngredientTotalStock64 restocked = Some T
                \<and> getIngredientAverageCost64 restocked = Some c)"
proof (intro conjI impI)
  let ?after = "ing\<lparr>stockHistory := stockHistory ing @
              [\<lparr>date = d1, quantity = - q, unitCost = c\<rparr>,
               \<lparr>date = d2, quantity = q, unitCost = c\<rparr>]\<rparr>"
  have average: "getIngredientAverageCost64 after = Some c"
    if "getIngredientTotalStock64 after = Some T" and "totalCost64 after = Some S" for after
    using assms(3) unfolding average64_sums [OF that] average64_sums [OF assms(1,2)] .
  have sums: "getIngredientTotalStock64 ?after = Some T" "totalCost64 ?after = Some S"
    by (rule round_trip_sums [OF assms(1,2,4,5,6)], simp)+
  show "getIngredientTotalStock64 ?after = Some T"
    by (rule sums(1))
  show "getIngredientAverageCost64 ?after = Some c"
    by (rule average [OF sums])
  assume a: "0 < q
            \<and> processIngredient d1 [ing] (ing_id ing) q c = [sold]
            \<and> form_addQuantity formData = Some q
            \<and> form_addTotalCost formData = Some t
            \<and> (if 0 < t then div64 t q = Some c else c = 0)
            \<and> handleSubmit toLowerCase d2 nowMs ingredients (Some sold) formData
                = Inr restocked"
  then have q: "0 < q"
    and sold: "sold = ing\<lparr>stockHistory := stockHistory ing @
                 [\<lparr>date = d1, quantity = - q, unitCost = c\<rparr>]\<rparr>"
    and addQuantity: "form_addQuantity formData = Some q"
    and addTotalCost: "form_addTotalCost formData = Some t"
    and quotient: "if 0 < t then div64 t q = Some c else c = 0"
    and submit: "handleSubmit toLowerCase d2 nowMs ingredients (Some sold) formData
                   = Inr restocked"
    by (simp_all add: processIngredient_single)
  have "stockHistory restocked = stockHistory sold @ [\<lparr>date = d2, quantity = q, unitCost = c\<rparr>]"
    by (rule handleSubmit_restock [OF submit addQuantity q addTotalCost quotient])
  then have h: "stockHistory restocked = stockHistory ing @
              [\<lparr>date = d1, quantity = - q, unitCost = c\<rparr>,
               \<lparr>date = d2, quantity = q, unitCost = c\<rparr>]"
    by (simp add: sold)
  have restocked: "getIngredientTotalStock64 restocked = Some T" "totalCost64 restocked = Some S"
    by (rule round_trip_sums [OF assms(1,2,4,5,6) h])+
  show "getIngredientTotalStock64 restocked = Some T"
    by (rule restocked(1))
  show "getIngredientAverageCost64 restocked = Some c"
    by (rule average [OF restocked])
qed

text \<open>
  10 units at 1; a sale of 4 at the average 1; a restock of 4 for a total cost of 4.
  Neither 10 - 4 in the stock nor 10 - 4 in the cost rounds.
\<close>

theorem ledger_conservation_witness:
  "processIngredient ''d2'' [flour_fresh] ''flour'' 4 1 = [flour_sale]
   \<and> (\<forall>toLowerCase.
         handleSubmit toLowerCase ''d3'' ''0'' [flour_sale] (Some flour_sale) restock_form
           = Inr flour_restocked)
   \<and> getIngredientTotalStock64 flour_fresh = Some 10
   \<and> getIngredientAverageCost64 flour_fresh = Some 1
   \<and> getIngredientTotalStock64 flour_restocked = Some 10
   \<and> getIngredientAverageCost64 flour_restocked = Some 1"
proof -
  have f1: "mul64 4 1 = Some 4"
    unfolding mul64_def tenth64_def fourTenths64_def threeTenths64_def
    by (rule round64_eval [where k = 50 and m = 4503599627370496 and u = "1 / 1125899906842624"]) simp_all
  have f2: "round64 6 = Some 6"
    unfolding tenth64_def fourTenths64_def threeTenths64_def
    by (rule round64_eval [where k = 50 and m = 6755399441055744 and u = "1 / 1125899906842624"]) simp_all
  have f3: "div64 4 4 = Some 1"
  proof -
    have "div64 4 4 = round64 (4 / 4)"
      by (simp add: div64_def tenth64_def fourTenths64_def threeTenths64_def)
    also have "\<dots> = Some 1"
      unfolding tenth64_def fourTenths64_def threeTenths64_def
      by (rule round64_eval [where k = 52 and m = 4503599627370496 and u = "1 / 4503599627370496"]) simp_all
    finally show ?thesis .
  qed
  have sale: "processIngredient ''d2'' [flour_fresh] ''flour'' 4 1 = [flour_sale]"
    by (simp add: processIngredient_def flour_fresh_def flour_sale_def)
  have submit:
    "handleSubmit toLowerCase ''d3'' ''0'' [flour_sale] (Some flour_sale) restock_form
       = Inr flour_restocked" for toLowerCase
    by (simp add: handleSubmit_def restock_form_def flour_sale_def flour_restocked_def
        orZero_def f3)
  have stock: "round64 (10 - 4) = Some (10 - 4)"
    using f2 by simp
  have form: "form_addQuantity restock_form = Some 4" "form_addTotalCost restock_form = Some 4"
    by (simp_all add: restock_form_def)
  have quotient: "if (0::real) < 4 then div64 4 4 = Some 1 else (1::real) = 0"
    using f3 by simp
  have id: "ing_id flour_fresh = ''flour''"
    by (simp add: flour_fresh_def)
  from ledger_conservation [OF flour_fresh_total64 flour_fresh_cost64 flour_fresh_average64
      f1 stock stock, of "''d2''" "''d3''" flour_sale restock_form 4 "\<lambda>s. s" "''0''"
      "[flour_sale]" flour_restocked]
  have "getIngredientTotalStock64 flour_restocked = Some 10
        \<and> getIngredientAverageCost64 flour_restocked = Some 1"
    using sale submit [of "\<lambda>s. s"] form quotient id by simp
  with sale submit flour_fresh_total64 flour_fresh_average64 show ?thesis
    by (simp only: simp_thms)
qed

text \<open>
  The claim as stated, refuted: one unit at 0.1 and two at 0.4 (the binary64 numbers);
  a sale of 1, which \<^verbatim>\<open>processIngredient\<close> records at the average cost, and a restock of
  1 for a total cost of 0.3, which \<^verbatim>\<open>handleSubmit\<close> records at that same unit cost. The
  total stock is 3 before and after. The average cost is the binary64 number 0.3 before;
  after, it is the next binary64 number above it: the subtraction of the batch's cost
  from the total cost has rounded.
\<close>

theorem ledger_conservation_counterexample:
  "getIngredientTotalStock64 sugar = Some 3
   \<and> getIngredientAverageCost64 sugar = Some threeTenths64
   \<and> processIngredient ''d3'' [sugar] ''sugar'' 1 threeTenths64 = [sugar_sale]
   \<and> (\<forall>toLowerCase.
         handleSubmit toLowerCase ''d4'' ''0'' [sugar_sale] (Some sugar_sale) sugar_restock_form
           = Inr sugar_round_trip)
   \<and> sugar_round_trip
       = sugar\<lparr>stockHistory := stockHistory sugar @
           [\<lparr>date = ''d3'', quantity = - 1, unitCost = threeTenths64\<rparr>,
            \<lparr>date = ''d4'', quantity = 1, unitCost = threeTenths64\<rparr>]\<rparr>
   \<and> getIngredientTotalStock64 sugar_round_trip = Some 3
   \<and> getIngredientAverageCost64 sugar_round_trip
       = Some (1351079888211149 / 4503599627370496)
   \<and> threeTenths64 < 1351079888211149 / 4503599627370496
   \<and> getIngredientAverageCost64 sugar_round_trip \<noteq> getIngredientAverageCost64 sugar"
proof -
  have f1: "div64 threeTenths64 1 = Some threeTenths64"
  proof -
    have "div64 threeTenths64 1 = round64 (threeTenths64 / 1)"
      by (simp add: div64_def tenth64_def fourTenths64_def threeTenths64_def)
    also have "\<dots> = Some threeTenths64"
      unfolding tenth64_def fourTenths64_def threeTenths64_def
      by (rule round64_eval [where k = 54 and m = 5404319552844595 and u = "1 / 18014398509481984"]) simp_all
    finally show ?thesis .
  qed
  have sale: "processIngredient ''d3'' [sugar] ''sugar'' 1 threeTenths64 = [sugar_sale]"
    by (simp add: processIngredient_def sugar_def sugar_sale_def)
  have submit:
    "\<forall>toLowerCase.
       handleSubmit toLowerCase ''d4'' ''0'' [sugar_sale] (Some sugar_sale) sugar_restock_form
         = Inr sugar_round_trip"
  proof -
    have "0 < threeTenths64"
      by (simp add: threeTenths64_def)
    then show ?thesis
      by (simp add: handleSubmit_def sugar_restock_form_def sugar_sale_def sugar_round_trip_def
          sugar_def orZero_def f1)
  qed
  have shape: "sugar_round_trip
       = sugar\<lparr>stockHistory := stockHistory sugar @
           [\<lparr>date = ''d3'', quantity = - 1, unitCost = threeTenths64\<rparr>,
            \<lparr>date = ''d4'', quantity = 1, unitCost = threeTenths64\<rparr>]\<rparr>"
    by (simp only: sugar_round_trip_def)
  have less: "threeTenths64 < 1351079888211149 / 4503599627370496"
    by (simp add: threeTenths64_def)
  then have "Some (1351079888211149 / 4503599627370496) \<noteq> Some threeTenths64"
    by simp
  then have "getIngredientAverageCost64 sugar_round_trip \<noteq> getIngredientAverageCost64 sugar"
    by (simp only: sugar_round_trip_average64 sugar_average64 not_False_eq_True)
  with less sugar_total64 sugar_average64 sugar_round_trip_total64 sugar_round_trip_average64
    sale submit shape
  show ?thesis
    by blast
qed

subsection \<open>Bulk stock adjustment\<close>

lemma handleBulkSave_histories:
  assumes "data_stock data = IntValue v"
  shows "map stockHistory
           (fst (handleBulkSave now INGREDIENTS selectedItems data stockOp (ingredients, inventory)))
         = map (\<lambda>ing.
             if ing_id ing \<in> selectedItems
             then stockHistory ing @
                    [\<lparr>date = now,
                      quantity = (if stockOp = ''add'' then of_int v else - of_int v),
                      unitCost = 0\<rparr>]
             else stockHistory ing) ingredients"
  using assms
  by (simp add: handleBulkSave_def Let_def split: option.split)

lemma handleBulkSave_nth:
  assumes "data_stock data = IntValue v" and "k < length ingredients"
    and "ing_id (ingredients ! k) \<in> selectedItems"
  shows "stockHistory
           (fst (handleBulkSave now INGREDIENTS selectedItems data stockOp (ingredients, inventory)) ! k)
         = stockHistory (ingredients ! k) @
             [\<lparr>date = now, quantity = (if stockOp = ''add'' then of_int v else - of_int v),
               unitCost = 0\<rparr>]"
proof -
  let ?r = "fst (handleBulkSave now INGREDIENTS selectedItems data stockOp (ingredients, inventory))"
  have len: "length ?r = length ingredients"
    by (simp add: handleBulkSave_def)
  have "stockHistory (?r ! k) = map stockHistory ?r ! k"
    using assms(2) len by simp
  also have "\<dots> = stockHistory (ingredients ! k) @
             [\<lparr>date = now, quantity = (if stockOp = ''add'' then of_int v else - of_int v),
               unitCost = 0\<rparr>]"
    unfolding handleBulkSave_histories [OF assms(1)] using assms(2,3) by simp
  finally show ?thesis .
qed

lemma zero_cost_add_lowers_average:
  assumes "0 < q" and "0 < getIngredientTotalStock ing" and "0 < getIngredientAverageCost ing"
    and "stockHistory ing' = stockHistory ing @ [\<lparr>date = d, quantity = q, unitCost = 0\<rparr>]"
  shows "getIngredientAverageCost ing' < getIngredientAverageCost ing"
proof -
  let ?T = "getIngredientTotalStock ing"
  let ?S = "\<Sum>b\<leftarrow>stockHistory ing. quantity b * unitCost b"
  have S: "0 < ?S"
    using assms(2,3) by (simp add: average_cost_ratio zero_less_divide_iff split: if_splits)
  have T': "getIngredientTotalStock ing' = ?T + q"
    by (simp add: total_stock_sum assms(4))
  have "getIngredientAverageCost ing' = ?S / (?T + q)"
    using assms(1,2) by (simp add: average_cost_ratio T' assms(4))
  moreover have "getIngredientAverageCost ing = ?S / ?T"
    using assms(2) by (simp add: average_cost_ratio)
  moreover have "?S / (?T + q) < ?S / ?T"
    using S assms(1,2) by (simp add: divide_strict_left_mono)
  ultimately show ?thesis by simp
qed

text \<open>
  C9, as the source has it. With a stock value \<open>v\<close> entered, a bulk edit pushes onto the
  history of every selected ingredient exactly one batch, of quantity \<open>+ v\<close> for the
  operation \<^verbatim>\<open>add\<close> and \<open>- v\<close> for any other, at unit cost 0 whatever the history holds,
  and leaves the histories of the others alone. Consequently a bulk add of a value
  \<open>v > 0\<close> on a selected ingredient of positive total stock and positive average cost
  strictly lowers its average cost. The claim puts no condition on \<open>v\<close>; the form
  accepts 0, and a bulk add of 0 leaves the average cost as it was.
\<close>

theorem bulk_stock_adjustment:
  assumes "data_stock data = IntValue v"
  shows "map stockHistory
           (fst (handleBulkSave now INGREDIENTS selectedItems data stockOp (ingredients, inventory)))
         = map (\<lambda>ing.
             if ing_id ing \<in> selectedItems
             then stockHistory ing @
                    [\<lparr>date = now,
                      quantity = (if stockOp = ''add'' then of_int v else - of_int v),
                      unitCost = 0\<rparr>]
             else stockHistory ing) ingredients
       \<and> (0 < v \<and> k < length ingredients \<and> ing_id (ingredients ! k) \<in> selectedItems
          \<and> 0 < getIngredientTotalStock (ingredients ! k)
          \<and> 0 < getIngredientAverageCost (ingredients ! k)
          \<longrightarrow> getIngredientAverageCost
                (fst (handleBulkSave now INGREDIENTS selectedItems data ''add''
                        (ingredients, inventory)) ! k)
              < getIngredientAverageCost (ingredients ! k))"
proof (intro conjI impI)
  show "map stockHistory
           (fst (handleBulkSave now INGREDIENTS selectedItems data stockOp (ingredients, inventory)))
         = map (\<lambda>ing.
             if ing_id ing \<in> selectedItems
             then stockHistory ing @
                    [\<lparr>date = now,
                      quantity = (if stockOp = ''add'' then of_int v else - of_int v),
                      unitCost = 0\<rparr>]
             else stockHistory ing) ingredients"
    by (rule handleBulkSave_histories [OF assms])
next
  assume a: "0 < v \<and> k < length ingredients \<and> ing_id (ingredients ! k) \<in> selectedItems
          \<and> 0 < getIngredientTotalStock (ingredients ! k)
          \<and> 0 < getIngredientAverageCost (ingredients ! k)"
  then have k: "k < length ingredients" and sel: "ing_id (ingredients ! k) \<in> selectedItems"
    by simp_all
  have "stockHistory
          (fst (handleBulkSave now INGREDIENTS selectedItems data ''add'' (ingredients, inventory)) ! k)
        = stockHistory (ingredients ! k) @ [\<lparr>date = now, quantity = of_int v, unitCost = 0\<rparr>]"
    using handleBulkSave_nth [OF assms k sel, of now "''add''" inventory] by simp
  with a show "getIngredientAverageCost
                (fst (handleBulkSave now INGREDIENTS selectedItems data ''add''
                        (ingredients, inventory)) ! k)
              < getIngredientAverageCost (ingredients ! k)"
    by (intro zero_cost_add_lowers_average [where q = "of_int v" and d = now]) simp_all
qed

text \<open>10 units at 1, then a bulk add of 10: the average cost falls from 1 to 1/2.\<close>

theorem bulk_stock_adjustment_witness:
  "map stockHistory
     (fst (handleBulkSave ''d2'' INGREDIENTS {''flour''} (bulk_stock 10) ''add'' ([flour_fresh], [])))
     = [[\<lparr>date = ''d1'', quantity = 10, unitCost = 1\<rparr>,
         \<lparr>date = ''d2'', quantity = 10, unitCost = 0\<rparr>]]
   \<and> getIngredientAverageCost
       (fst (handleBulkSave ''d2'' INGREDIENTS {''flour''} (bulk_stock 10) ''add''
               ([flour_fresh], [])) ! 0)
     < getIngredientAverageCost flour_fresh"
proof -
  have stock: "data_stock (bulk_stock 10) = IntValue 10"
    by (simp add: bulk_stock_def)
  have "ing_id flour_fresh = ''flour''" "stockHistory flour_fresh = [\<lparr>date = ''d1'', quantity = 10, unitCost = 1\<rparr>]"
    by (simp_all add: flour_fresh_def)
  with bulk_stock_adjustment [OF stock, of "''d2''" "{''flour''}" "''add''" "[flour_fresh]" "[]" 0]
  show ?thesis
    by (simp add: flour_fresh_total flour_fresh_average)
qed

text \<open>
  The claim as stated, refuted: 10 units at 1, then a bulk add of 0. Total stock and
  average cost are positive, and the average cost stays 1.
\<close>

theorem bulk_add_counterexample:
  "fst (handleBulkSave ''d2'' INGREDIENTS {''flour''} (bulk_stock 0) ''add'' ([flour_fresh], []))
     = [flour_bulk_added_zero]
   \<and> 0 < getIngredientTotalStock flour_fresh
   \<and> 0 < getIngredientAverageCost flour_fresh
   \<and> getIngredientAverageCost flour_bulk_added_zero = getIngredientAverageCost flour_fresh
   \<and> \<not> getIngredientAverageCost flour_bulk_added_zero < getIngredientAverageCost flour_fresh"
  by (simp add: handleBulkSave_def bulk_stock_def flour_fresh_def flour_bulk_added_zero_def
      getIngredientTotalStock_def getIngredientAverageCost_def)


subsection \<open>Stock count reconciliation\<close>

lemma finalize_fold:
  "foldl finalizeItem (tv, acc) items =
     (tv + (\<Sum>item\<leftarrow>items.
              ((case actualStock item of Some n \<Rightarrow> n | None \<Rightarrow> expectedStock item)
               - expectedStock item) * sci_unitCost item),
      acc @ map (\<lambda>item. withActual item
                   (case actualStock item of Some n \<Rightarrow> n | None \<Rightarrow> expectedStock item)) items)"
proof (induction items arbitrary: tv acc)
  case Nil
  show ?case by simp
next
  case (Cons item items)
  have step: "finalizeItem (tv, acc) item =
      (tv + ((case actualStock item of Some n \<Rightarrow> n | None \<Rightarrow> expectedStock item)
               - expectedStock item) * sci_unitCost item,
       acc @ [withActual item
                (case actualStock item of Some n \<Rightarrow> n | None \<Rightarrow> expectedStock item)])"
    by (simp add: finalizeItem_def Let_def)
  show ?case
    unfolding foldl_Cons step Cons.IH by (simp add: add.assoc)
qed

lemma withActual_fields [simp]:
  "sci_ingredientId (withActual item a) = sci_ingredientId item"
  "expectedStock (withActual item a) = expectedStock item"
  "sci_unitCost (withActual item a) = sci_unitCost item"
  "actualStock (withActual item a) = a"
  by (simp_all add: withActual_def)

lemma handleCountChange_reset:
  "map (\<lambda>item. item\<lparr>actualStock := None\<rparr>) (handleCountChange ident val prev)
     = map (\<lambda>item. item\<lparr>actualStock := None\<rparr>) prev"
  by (simp add: handleCountChange_def)

lemma countItemsAfter_reset:
  "map (\<lambda>item. item\<lparr>actualStock := None\<rparr>) (countItemsAfter ingredients edits)
     = NewStockCountView_countItems ingredients"
proof -
  have "map (\<lambda>item. item\<lparr>actualStock := None\<rparr>)
          (foldl (\<lambda>prev edit. handleCountChange (fst edit) (snd edit) prev) start edits)
        = map (\<lambda>item. item\<lparr>actualStock := None\<rparr>) start" for start
    by (induction edits arbitrary: start) (simp_all add: handleCountChange_reset)
  then show ?thesis
    by (simp add: countItemsAfter_def NewStockCountView_countItems_def)
qed

lemma countItemsAfter_field:
  assumes "\<And>item. f (item\<lparr>actualStock := None\<rparr>) = f item"
  shows "map f (countItemsAfter ingredients edits) = map f (NewStockCountView_countItems ingredients)"
proof -
  have "map f (countItemsAfter ingredients edits)
        = map f (map (\<lambda>item. item\<lparr>actualStock := None\<rparr>) (countItemsAfter ingredients edits))"
    by (simp add: assms)
  then show ?thesis
    by (simp only: countItemsAfter_reset)
qed

lemma countItemsAfter_expected:
  "map expectedStock (countItemsAfter ingredients edits) = map getIngredientTotalStock ingredients"
  by (simp add: countItemsAfter_field NewStockCountView_countItems_def)

lemma countItemsAfter_unitCost:
  "map sci_unitCost (countItemsAfter ingredients edits) = map getIngredientAverageCost ingredients"
  by (simp add: countItemsAfter_field NewStockCountView_countItems_def)

lemma countItemsAfter_ids:
  "map sci_ingredientId (countItemsAfter ingredients edits) = map ing_id ingredients"
  by (simp add: countItemsAfter_field NewStockCountView_countItems_def)

lemma finalize_newCount:
  "snd (handleFinalizeCount True confirmApply now nowMs countItems (ingredients, stockCounts))
   = \<lparr>sc_id = ''sc_'' @ nowMs, sc_timestamp = now,
      sc_items = map (\<lambda>item. withActual item
          (Some (case actualStock item of Some n \<Rightarrow> n | None \<Rightarrow> expectedStock item)))
          countItems,
      totalVarianceValue =
        (\<Sum>item\<leftarrow>countItems.
           ((case actualStock item of Some n \<Rightarrow> n | None \<Rightarrow> expectedStock item)
            - expectedStock item) * sci_unitCost item)\<rparr>
     # stockCounts"
  by (simp add: handleFinalizeCount_def finalize_fold Let_def comp_def withActual_def)

lemma variance_unset_zero:
  fixes xs :: "real option StockCountItem list"
  shows "(\<Sum>item\<leftarrow>xs.
           ((case actualStock item of Some n \<Rightarrow> n | None \<Rightarrow> expectedStock item)
            - expectedStock item) * sci_unitCost item)
      = (\<Sum>item\<leftarrow>xs. case actualStock item of
            Some n \<Rightarrow> (n - expectedStock item) * sci_unitCost item
          | None \<Rightarrow> 0)"
  by (rule arg_cong [where f = sum_list]) (simp split: option.split)

text \<open>
  C7. The lines of a draft, whatever was entered since, carry the total stock of their
  ingredient as \<open>expectedStock\<close> and its average cost as \<open>unitCost\<close>. At finalize a line
  whose actual count is unset is recorded with its expected stock as actual, and the
  recorded \<open>totalVarianceValue\<close> is the sum over all lines of actual minus expected times
  unit cost at count; the unset lines add nothing to it.
\<close>

theorem stock_count_finalize:
  "let countItems = countItemsAfter ingredients edits;
       result = handleFinalizeCount True confirmApply now nowMs countItems
                  (ingredients, stockCounts);
       newCount = hd (snd result)
   in snd result = newCount # stockCounts
      \<and> map expectedStock countItems = map getIngredientTotalStock ingredients
      \<and> map sci_unitCost countItems = map getIngredientAverageCost ingredients
      \<and> map expectedStock (sc_items newCount) = map getIngredientTotalStock ingredients
      \<and> map sci_unitCost (sc_items newCount) = map getIngredientAverageCost ingredients
      \<and> map actualStock (sc_items newCount)
          = map (\<lambda>item. case actualStock item of
                           Some n \<Rightarrow> Some n
                         | None \<Rightarrow> Some (expectedStock item)) countItems
      \<and> totalVarianceValue newCount
          = (\<Sum>item\<leftarrow>sc_items newCount.
               case actualStock item of
                 Some actual \<Rightarrow> (actual - expectedStock item) * sci_unitCost item
               | None \<Rightarrow> 0)
      \<and> totalVarianceValue newCount
          = (\<Sum>item\<leftarrow>countItems.
               case actualStock item of
                 Some n \<Rightarrow> (n - expectedStock item) * sci_unitCost item
               | None \<Rightarrow> 0)"
proof -
  let ?items = "countItemsAfter ingredients edits"
  have expected: "map (\<lambda>item. expectedStock item) ?items = map getIngredientTotalStock ingredients"
    using countItemsAfter_expected [of ingredients edits] by simp
  have cost: "map (\<lambda>item. sci_unitCost item) ?items = map getIngredientAverageCost ingredients"
    using countItemsAfter_unitCost [of ingredients edits] by simp
  have actual: "map (\<lambda>item. Some (case actualStock item of Some n \<Rightarrow> n | None \<Rightarrow> expectedStock item)) ?items
      = map (\<lambda>item. case actualStock item of Some n \<Rightarrow> Some n | None \<Rightarrow> Some (expectedStock item)) ?items"
    by (simp split: option.split)
  show ?thesis
    unfolding Let_def finalize_newCount
    by (simp add: comp_def expected cost actual variance_unset_zero)
qed

lemma find_mapped_key:
  assumes "distinct (map key xs)" and "x \<in> set xs" and "\<And>y. key' (h y) = key y"
  shows "find (\<lambda>c. key' c = key x) (map h xs) = Some (h x)"
  using assms(1,2)
proof (induction xs)
  case Nil
  then show ?case by simp
next
  case (Cons y ys)
  show ?case
  proof (cases "x = y")
    case True
    then show ?thesis by (simp add: assms(3))
  next
    case False
    with Cons.prems have x: "x \<in> set ys" and "key y \<notin> key ` set ys"
      by simp_all
    then have "key y \<noteq> key x"
      by auto
    with Cons.IH x Cons.prems(1) show ?thesis
      by (simp add: assms(3))
  qed
qed

lemma single_batch_ledger:
  "getIngredientTotalStock
     (ing\<lparr>stockHistory := [\<lparr>date = d, quantity = getIngredientTotalStock ing,
                             unitCost = getIngredientAverageCost ing\<rparr>]\<rparr>)
     = getIngredientTotalStock ing"
  "getIngredientAverageCost
     (ing\<lparr>stockHistory := [\<lparr>date = d, quantity = getIngredientTotalStock ing,
                             unitCost = getIngredientAverageCost ing\<rparr>]\<rparr>)
     = getIngredientAverageCost ing"
proof -
  let ?ing = "ing\<lparr>stockHistory := [\<lparr>date = d, quantity = getIngredientTotalStock ing,
                             unitCost = getIngredientAverageCost ing\<rparr>]\<rparr>"
  show total: "getIngredientTotalStock ?ing = getIngredientTotalStock ing"
    by (simp add: getIngredientTotalStock_def)
  show "getIngredientAverageCost ?ing = getIngredientAverageCost ing"
  proof (cases "getIngredientTotalStock ing \<le> 0")
    case True
    then show ?thesis
      using total by (simp add: average_cost_ratio)
  next
    case False
    have "getIngredientAverageCost ?ing
          = getIngredientTotalStock ing * getIngredientAverageCost ing / getIngredientTotalStock ing"
      using False total by (simp add: average_cost_ratio [of ?ing])
    with False show ?thesis by simp
  qed
qed

lemma finalize_unchanged_items:
  assumes "list_all (\<lambda>item. actualStock item = None \<or> actualStock item = Some (expectedStock item))
             (countItemsAfter ingredients edits)"
  shows "map (\<lambda>item. withActual item
                (case actualStock item of Some n \<Rightarrow> n | None \<Rightarrow> expectedStock item))
           (countItemsAfter ingredients edits)
         = map (\<lambda>ing. \<lparr>sci_ingredientId = ing_id ing, ingredientName = ing_name ing,
                  sci_unit = ing_unit ing, expectedStock = getIngredientTotalStock ing,
                  actualStock = getIngredientTotalStock ing,
                  sci_unitCost = getIngredientAverageCost ing\<rparr>) ingredients"
proof -
  let ?items = "countItemsAfter ingredients edits"
  let ?reset = "\<lambda>item :: real option StockCountItem. item\<lparr>actualStock := None\<rparr>"
  have "map (\<lambda>item. withActual item
                (case actualStock item of Some n \<Rightarrow> n | None \<Rightarrow> expectedStock item)) ?items
        = map (\<lambda>item. withActual (?reset item) (expectedStock (?reset item))) ?items"
    using assms by (intro map_cong refl) (auto simp: list_all_iff withActual_def)
  also have "\<dots> = map (\<lambda>item. withActual item (expectedStock item)) (map ?reset ?items)"
    by (simp add: comp_def)
  also have "\<dots> = map (\<lambda>ing. \<lparr>sci_ingredientId = ing_id ing, ingredientName = ing_name ing,
                  sci_unit = ing_unit ing, expectedStock = getIngredientTotalStock ing,
                  actualStock = getIngredientTotalStock ing,
                  sci_unitCost = getIngredientAverageCost ing\<rparr>) ingredients"
    unfolding countItemsAfter_reset
    by (simp add: NewStockCountView_countItems_def withActual_def comp_def)
  finally show ?thesis .
qed


lemma finalize_apply:
  "fst (handleFinalizeCount True True now nowMs countItems (ingredients, stockCounts))
   = map (\<lambda>ing.
        case find (\<lambda>ci. sci_ingredientId ci = ing_id ing)
               (map (\<lambda>item. withActual item
                  (case actualStock item of Some n \<Rightarrow> n | None \<Rightarrow> expectedStock item))
                  countItems) of
          None \<Rightarrow> ing
        | Some countedItem \<Rightarrow>
            ing\<lparr>stockHistory :=
              [\<lparr>date = now, quantity = actualStock countedItem,
                unitCost = sci_unitCost countedItem\<rparr>]\<rparr>) ingredients"
  by (simp add: handleFinalizeCount_def finalize_fold Let_def)

text \<open>
  C8. Finalizing a draft in which every line's actual is unset or equal to its expected
  stock records a total variance value of 0. Applying that count, with the ids of the
  ingredients distinct (the id is the identity of an ingredient; the count is looked up
  by it), replaces the history of every ingredient by the single batch of its total
  stock at its average cost, and leaves the total stock and the average cost of every
  ingredient as they were.
\<close>

theorem reconciliation_idempotent:
  assumes "list_all (\<lambda>item. actualStock item = None \<or> actualStock item = Some (expectedStock item))
             (countItemsAfter ingredients edits)"
  shows "let result = handleFinalizeCount True True now nowMs (countItemsAfter ingredients edits)
                        (ingredients, stockCounts)
         in totalVarianceValue (hd (snd result)) = 0
            \<and> (distinct (map ing_id ingredients) \<longrightarrow>
                 map stockHistory (fst result)
                   = map (\<lambda>ing. [\<lparr>date = now, quantity = getIngredientTotalStock ing,
                                    unitCost = getIngredientAverageCost ing\<rparr>]) ingredients
                 \<and> map getIngredientTotalStock (fst result)
                     = map getIngredientTotalStock ingredients
                 \<and> map getIngredientAverageCost (fst result)
                     = map getIngredientAverageCost ingredients)"
proof -
  let ?items = "countItemsAfter ingredients edits"
  let ?result = "handleFinalizeCount True True now nowMs ?items (ingredients, stockCounts)"
  let ?line = "\<lambda>ing. \<lparr>sci_ingredientId = ing_id ing, ingredientName = ing_name ing,
                  sci_unit = ing_unit ing, expectedStock = getIngredientTotalStock ing,
                  actualStock = getIngredientTotalStock ing,
                  sci_unitCost = getIngredientAverageCost ing\<rparr>"
  let ?collapse = "\<lambda>ing. ing\<lparr>stockHistory :=
                     [\<lparr>date = now, quantity = getIngredientTotalStock ing,
                       unitCost = getIngredientAverageCost ing\<rparr>]\<rparr>"
  have "(\<Sum>item\<leftarrow>?items.
           case actualStock item of
             Some n \<Rightarrow> (n - expectedStock item) * sci_unitCost item
           | None \<Rightarrow> 0) = (\<Sum>item\<leftarrow>?items. 0)"
    using assms
    by (intro arg_cong [where f = sum_list] map_cong refl)
       (auto simp: list_all_iff split: option.split)
  then have variance: "totalVarianceValue (hd (snd ?result)) = 0"
    by (simp add: finalize_newCount variance_unset_zero)
  have applied: "fst ?result = map ?collapse ingredients" if "distinct (map ing_id ingredients)"
  proof -
    have "find (\<lambda>ci. sci_ingredientId ci = ing_id ing) (map ?line ingredients) = Some (?line ing)"
      if "ing \<in> set ingredients" for ing
      using \<open>distinct (map ing_id ingredients)\<close> that by (rule find_mapped_key) simp
    then show ?thesis
      unfolding finalize_apply finalize_unchanged_items [OF assms]
      by (intro map_cong refl) simp
  qed
  have "map stockHistory (map ?collapse ingredients)
          = map (\<lambda>ing. [\<lparr>date = now, quantity = getIngredientTotalStock ing,
                           unitCost = getIngredientAverageCost ing\<rparr>]) ingredients"
    and "map getIngredientTotalStock (map ?collapse ingredients)
          = map getIngredientTotalStock ingredients"
    and "map getIngredientAverageCost (map ?collapse ingredients)
          = map getIngredientAverageCost ingredients"
    by (simp_all add: single_batch_ledger)
  with variance applied show ?thesis
    unfolding Let_def by simp
qed



lemma flour_sold_count_items: "countItemsAfter [flour_sold] [(''flour'', Some 15)]
     = [\<lparr>sci_ingredientId = ''flour'', ingredientName = ''Flour'', sci_unit = ''g'',
         expectedStock = 15, actualStock = Some 15, sci_unitCost = 7 / 3\<rparr>]"
    by (simp add: countItemsAfter_def NewStockCountView_countItems_def handleCountChange_def
        flour_sold_total flour_sold_average)
       (simp add: flour_sold_def)

text \<open>
  Three batches of flour, total 15 at an average of 7/3, counted as 15: one batch of 15
  at 7/3 remains.
\<close>

theorem reconciliation_idempotent_witness:
  "countItemsAfter [flour_sold] [(''flour'', Some 15)]
     = [\<lparr>sci_ingredientId = ''flour'', ingredientName = ''Flour'', sci_unit = ''g'',
         expectedStock = 15, actualStock = Some 15, sci_unitCost = 7 / 3\<rparr>]
   \<and> totalVarianceValue
       (hd (snd (handleFinalizeCount True True ''d4'' ''0''
                   (countItemsAfter [flour_sold] [(''flour'', Some 15)]) ([flour_sold], []))))
     = 0
   \<and> map stockHistory
       (fst (handleFinalizeCount True True ''d4'' ''0''
               (countItemsAfter [flour_sold] [(''flour'', Some 15)]) ([flour_sold], [])))
     = [[\<lparr>date = ''d4'', quantity = 15, unitCost = 7 / 3\<rparr>]]
   \<and> map getIngredientTotalStock
       (fst (handleFinalizeCount True True ''d4'' ''0''
               (countItemsAfter [flour_sold] [(''flour'', Some 15)]) ([flour_sold], [])))
     = [15]
   \<and> map getIngredientAverageCost
       (fst (handleFinalizeCount True True ''d4'' ''0''
               (countItemsAfter [flour_sold] [(''flour'', Some 15)]) ([flour_sold], [])))
     = [7 / 3]"
proof -
  let ?items = "countItemsAfter [flour_sold] [(''flour'', Some 15)]"
  let ?result = "handleFinalizeCount True True ''d4'' ''0'' ?items ([flour_sold], [])"
  have equal: "list_all (\<lambda>item. actualStock item = None \<or> actualStock item = Some (expectedStock item))
             ?items"
    by (simp add: flour_sold_count_items)
  have d: "distinct (map ing_id [flour_sold])"
    by simp
  note r = reconciliation_idempotent [OF equal, of "''d4''" "''0''" "[]", unfolded Let_def]
  from r have "totalVarianceValue (hd (snd ?result)) = 0"
    by (rule conjunct1)
  moreover from r d have
    "map stockHistory (fst ?result)
       = map (\<lambda>ing. [\<lparr>date = ''d4'', quantity = getIngredientTotalStock ing,
                        unitCost = getIngredientAverageCost ing\<rparr>]) [flour_sold]
     \<and> map getIngredientTotalStock (fst ?result) = map getIngredientTotalStock [flour_sold]
     \<and> map getIngredientAverageCost (fst ?result) = map getIngredientAverageCost [flour_sold]"
    by blast
  ultimately show ?thesis
    using flour_sold_count_items by (simp only: list.map flour_sold_total flour_sold_average simp_thms)
qed


subsection \<open>Stock deduction at a sale\<close>

lemma findIndex_Some_iff:
  "findIndex P xs = Some k \<longleftrightarrow> k < length xs \<and> P (xs ! k) \<and> (\<forall>j<k. \<not> P (xs ! j))"
proof (induction xs arbitrary: k)
  case Nil
  show ?case by simp
next
  case (Cons x xs)
  show ?case
  proof (cases "P x")
    case True
    then show ?thesis
      by (cases k) auto
  next
    case False
    show ?thesis
    proof (cases k)
      case 0
      with False show ?thesis by simp
    next
      case (Suc m)
      have "(\<forall>j<Suc m. \<not> P ((x # xs) ! j)) \<longleftrightarrow> (\<forall>j<m. \<not> P (xs ! j))"
        using False by (auto simp: less_Suc_eq_0_disj)
      with False Suc Cons.IH [of m] show ?thesis
        by auto
    qed
  qed
qed

lemma findIndex_ids:
  "map ing_id xs = map ing_id ys \<Longrightarrow>
   findIndex (\<lambda>i. ing_id i = ident) xs = findIndex (\<lambda>i. ing_id i = ident) ys"
proof (induction xs arbitrary: ys)
  case Nil
  then show ?case by simp
next
  case (Cons x xs)
  then obtain y ys' where "ys = y # ys'" "ing_id x = ing_id y" "map ing_id xs = map ing_id ys'"
    by (cases ys) auto
  with Cons.IH [of ys'] show ?case by simp
qed

lemma processIngredient_ids:
  "map ing_id (processIngredient now upd ident qty cost) = map ing_id upd"
  by (auto simp: processIngredient_def findIndex_Some_iff map_update list_update_same_conv
      split: option.split)

lemma processIngredient_length:
  "length (processIngredient now upd ident qty cost) = length upd"
  by (simp add: processIngredient_def split: option.split)


lemma deductions_closed_form:
  "foldl (\<lambda>u d. processIngredient now u (fst d) (fst (snd d)) (snd (snd d))) upd ds
   = map (\<lambda>(k, ing).
        ing\<lparr>stockHistory := stockHistory ing @
          map (\<lambda>d. \<lparr>date = now, quantity = - fst (snd d), unitCost = snd (snd d)\<rparr>)
            (filter (\<lambda>d. findIndex (\<lambda>i. ing_id i = fst d) upd = Some k) ds)\<rparr>)
       (enumerate 0 upd)"
  (is "?run ds = ?closed ds")
proof (induction ds rule: rev_induct)
  case Nil
  have "map (\<lambda>(k, ing). ing\<lparr>stockHistory := stockHistory ing @ []\<rparr>) (enumerate 0 upd)
        = map snd (enumerate 0 upd)"
    by (intro map_cong refl) auto
  then show ?case by simp
next
  case (snoc d ds)
  let ?mk = "\<lambda>d :: string \<times> real \<times> real.
               \<lparr>date = now, quantity = - fst (snd d), unitCost = snd (snd d)\<rparr>"
  let ?R = "?closed ds"
  have len: "length ?R = length upd"
    by simp
  have nth_R: "?R ! j = (upd ! j)\<lparr>stockHistory := stockHistory (upd ! j) @
          map ?mk (filter (\<lambda>d. findIndex (\<lambda>i. ing_id i = fst d) upd = Some j) ds)\<rparr>"
    if "j < length upd" for j
    using that by (simp add: nth_enumerate_eq)
  have ids: "map ing_id ?R = map ing_id upd"
  proof (rule nth_equalityI)
    show "length (map ing_id ?R) = length (map ing_id upd)"
      by simp
  next
    fix j
    assume "j < length (map ing_id ?R)"
    then have "j < length upd"
      by simp
    then show "map ing_id ?R ! j = map ing_id upd ! j"
      by (simp add: nth_enumerate_eq)
  qed
  have idx: "findIndex (\<lambda>i. ing_id i = fst d) ?R = findIndex (\<lambda>i. ing_id i = fst d) upd"
    by (rule findIndex_ids [OF ids])
  have run: "?run (ds @ [d]) = processIngredient now ?R (fst d) (fst (snd d)) (snd (snd d))"
    by (simp add: snoc.IH)
  show ?case
  proof (cases "findIndex (\<lambda>i. ing_id i = fst d) upd")
    case None
    then have "?run (ds @ [d]) = ?R"
      unfolding run by (simp add: processIngredient_def idx del: map_eq_conv)
    moreover have "?closed (ds @ [d]) = ?R"
      using None by simp
    ultimately show ?thesis by simp
  next
    case (Some k)
    then have k: "k < length upd"
      by (simp add: findIndex_Some_iff)
    have step: "?run (ds @ [d])
        = ?R[k := (?R ! k)\<lparr>stockHistory := stockHistory (?R ! k) @ [?mk d]\<rparr>]"
      unfolding run by (simp add: processIngredient_def idx Some del: map_eq_conv)
    show ?thesis
      unfolding step
    proof (rule nth_equalityI)
      show "length (?R[k := (?R ! k)\<lparr>stockHistory := stockHistory (?R ! k) @ [?mk d]\<rparr>])
            = length (?closed (ds @ [d]))"
        by simp
    next
      fix j
      assume "j < length (?R[k := (?R ! k)\<lparr>stockHistory := stockHistory (?R ! k) @ [?mk d]\<rparr>])"
      then have j: "j < length upd"
        by simp
      show "?R[k := (?R ! k)\<lparr>stockHistory := stockHistory (?R ! k) @ [?mk d]\<rparr>] ! j
            = ?closed (ds @ [d]) ! j"
      proof (cases "j = k")
        case True
        with k Some show ?thesis
          by (simp add: nth_enumerate_eq)
      next
        case False
        with j k Some show ?thesis
          by (simp add: nth_enumerate_eq)
      qed
    qed
  qed
qed


lemma recipe_deductions_fold:
  "foldl (\<lambda>updated recipeItem.
      case find (\<lambda>i. ing_id i = ingredientId recipeItem) ingredients of
        None \<Rightarrow> updated
      | Some ingredient \<Rightarrow>
          let quantityToDecrement = recipe_quantity recipeItem * cartQuantity
          in processIngredient now updated (ingredientId recipeItem)
               quantityToDecrement (getIngredientAverageCost ingredient))
     upd lines
   = foldl (\<lambda>u d. processIngredient now u (fst d) (fst (snd d)) (snd (snd d))) upd
       (concat (map (\<lambda>recipeLine.
          case find (\<lambda>i. ing_id i = ingredientId recipeLine) ingredients of
            None \<Rightarrow> []
          | Some ingredient \<Rightarrow>
              [(ingredientId recipeLine, recipe_quantity recipeLine * cartQuantity,
                getIngredientAverageCost ingredient)]) lines))"
proof (induction lines arbitrary: upd)
  case Nil
  show ?case by simp
next
  case (Cons line lines)
  show ?case
    by (cases "find (\<lambda>i. ing_id i = ingredientId line) ingredients")
       (simp_all add: Cons.IH Let_def)
qed

lemma cart_line_fold:
  "(case cart_type cartItem of
      PRODUCT \<Rightarrow>
        (case find (\<lambda>p. prod_id p = itemId cartItem) inventory of
           None \<Rightarrow> upd
         | Some product \<Rightarrow>
             foldl (\<lambda>updated recipeItem.
                case find (\<lambda>i. ing_id i = ingredientId recipeItem) ingredients of
                  None \<Rightarrow> updated
                | Some ingredient \<Rightarrow>
                    let quantityToDecrement =
                          recipe_quantity recipeItem * cart_quantity cartItem
                    in processIngredient now updated (ingredientId recipeItem)
                         quantityToDecrement (getIngredientAverageCost ingredient))
               upd (prod_recipe product))
    | INGREDIENT \<Rightarrow>
        (case find (\<lambda>i. ing_id i = itemId cartItem) ingredients of
           None \<Rightarrow> upd
         | Some ingredient \<Rightarrow>
             processIngredient now upd (itemId cartItem)
               (cart_quantity cartItem) (getIngredientAverageCost ingredient)))
   = foldl (\<lambda>u d. processIngredient now u (fst d) (fst (snd d)) (snd (snd d))) upd
       (cartLineDeductions ingredients inventory cartItem)"
  by (simp add: cartLineDeductions_def recipe_deductions_fold
      split: CartItemType.split option.split)

lemma sale_is_deductions:
  "handleFinalizeTransaction now ingredients inventory cart
   = foldl (\<lambda>u d. processIngredient now u (fst d) (fst (snd d)) (snd (snd d))) ingredients
       (saleDeductions ingredients inventory cart)"
proof -
  have "foldl (\<lambda>u cartItem.
          foldl (\<lambda>u d. processIngredient now u (fst d) (fst (snd d)) (snd (snd d))) u
            (cartLineDeductions ingredients inventory cartItem)) upd cart
        = foldl (\<lambda>u d. processIngredient now u (fst d) (fst (snd d)) (snd (snd d))) upd
            (concat (map (cartLineDeductions ingredients inventory) cart))" for upd
    by (induction cart arbitrary: upd) simp_all
  then show ?thesis
    unfolding handleFinalizeTransaction_def cart_line_fold saleDeductions_def .
qed

lemma findIndex_distinct:
  assumes "distinct (map ing_id xs)" and "k < length xs"
  shows "findIndex (\<lambda>i. ing_id i = ident) xs = Some k \<longleftrightarrow> ident = ing_id (xs ! k)"
proof -
  have "ing_id (xs ! j) \<noteq> ing_id (xs ! k)" if "j < k" for j
  proof -
    from that assms(2) have "j < length (map ing_id xs)" "k < length (map ing_id xs)" "j \<noteq> k"
      by simp_all
    with nth_eq_iff_index_eq [OF assms(1), of j k]
    have "map ing_id xs ! j \<noteq> map ing_id xs ! k"
      by blast
    with that assms(2) show ?thesis
      by simp
  qed
  with assms(2) show ?thesis
    by (auto simp: findIndex_Some_iff)
qed

lemma map_enumerate_snd: "map (\<lambda>(k, x). f x) (enumerate n xs) = map f xs"
  by (induction xs arbitrary: n) simp_all

text \<open>
  C3. When a sale is committed, the ledger that results is the ledger at the start of the
  sale with the batches of the sale's deductions pushed, in the order of the cart, onto
  the ingredients they refer to: for a cart line of kind \<open>PRODUCT\<close> one batch per line of
  the product's recipe, of quantity minus recipe quantity times cart quantity, and for a
  cart line of kind \<open>INGREDIENT\<close> one batch of quantity minus the cart quantity. The unit
  cost of every batch is the average cost of the ingredient in the ledger at the start
  of the sale, whatever the same sale has deducted before. A deduction goes to the first
  ingredient with its id; with distinct ids, to the ingredient with its id.
\<close>

theorem sale_deductions:
  "handleFinalizeTransaction now ingredients inventory cart
     = map (\<lambda>(k, ing).
          ing\<lparr>stockHistory := stockHistory ing @
            map (\<lambda>(ident, qty, cost). \<lparr>date = now, quantity = - qty, unitCost = cost\<rparr>)
              (filter (\<lambda>(ident, qty, cost).
                   findIndex (\<lambda>i. ing_id i = ident) ingredients = Some k)
                 (saleDeductions ingredients inventory cart))\<rparr>)
         (enumerate 0 ingredients)
   \<and> (distinct (map ing_id ingredients) \<longrightarrow>
        handleFinalizeTransaction now ingredients inventory cart
          = map (\<lambda>ing.
               ing\<lparr>stockHistory := stockHistory ing @
                 map (\<lambda>(ident, qty, cost). \<lparr>date = now, quantity = - qty, unitCost = cost\<rparr>)
                   (filter (\<lambda>(ident, qty, cost). ident = ing_id ing)
                      (saleDeductions ingredients inventory cart))\<rparr>)
              ingredients)"
proof (intro conjI impI)
  let ?ds = "saleDeductions ingredients inventory cart"
  let ?mk = "\<lambda>d :: string \<times> real \<times> real.
               \<lparr>date = now, quantity = - fst (snd d), unitCost = snd (snd d)\<rparr>"
  have mk: "(\<lambda>(ident, qty, cost). \<lparr>date = now, quantity = - qty, unitCost = cost\<rparr>) = ?mk"
    by (simp add: fun_eq_iff)
  have sel: "(\<lambda>(ident :: string, qty :: real, cost :: real). P ident) = (\<lambda>d. P (fst d))" for P :: "string \<Rightarrow> bool"
    by (simp add: fun_eq_iff)
  show first: "handleFinalizeTransaction now ingredients inventory cart
     = map (\<lambda>(k, ing).
          ing\<lparr>stockHistory := stockHistory ing @
            map (\<lambda>(ident, qty, cost). \<lparr>date = now, quantity = - qty, unitCost = cost\<rparr>)
              (filter (\<lambda>(ident, qty, cost).
                   findIndex (\<lambda>i. ing_id i = ident) ingredients = Some k) ?ds)\<rparr>)
         (enumerate 0 ingredients)"
    unfolding mk sel sale_is_deductions by (rule deductions_closed_form)
  assume d: "distinct (map ing_id ingredients)"
  have "map (\<lambda>(k, ing).
          ing\<lparr>stockHistory := stockHistory ing @
            map ?mk (filter (\<lambda>d. findIndex (\<lambda>i. ing_id i = fst d) ingredients = Some k) ?ds)\<rparr>)
         (enumerate 0 ingredients)
      = map (\<lambda>(k, ing).
          ing\<lparr>stockHistory := stockHistory ing @
            map ?mk (filter (\<lambda>d. fst d = ing_id ing) ?ds)\<rparr>)
         (enumerate 0 ingredients)"
    by (intro map_cong refl) (auto simp: in_set_enumerate_eq findIndex_distinct [OF d])
  also have "\<dots> = map (\<lambda>ing.
          ing\<lparr>stockHistory := stockHistory ing @
            map ?mk (filter (\<lambda>d. fst d = ing_id ing) ?ds)\<rparr>) ingredients"
    by (rule map_enumerate_snd)
  finally show "handleFinalizeTransaction now ingredients inventory cart
          = map (\<lambda>ing.
               ing\<lparr>stockHistory := stockHistory ing @
                 map (\<lambda>(ident, qty, cost). \<lparr>date = now, quantity = - qty, unitCost = cost\<rparr>)
                   (filter (\<lambda>(ident, qty, cost). ident = ing_id ing) ?ds)\<rparr>)
              ingredients"
    unfolding first mk sel .
qed


lemma sale_cart_deductions:
  "saleDeductions [flour_fresh] [bread] sale_cart = [(''flour'', 10, 1), (''flour'', 3, 1)]"
proof -
  have "ing_id flour_fresh = ''flour''"
    by (simp add: flour_fresh_def)
  then show ?thesis
    by (simp add: saleDeductions_def cartLineDeductions_def bread_def sale_cart_def
        flour_fresh_average)
qed

text \<open>
  10 units of flour at 1; five loaves of two units each and three units sold directly.
  After the first batch the working copy holds no flour, where the average cost is 0;
  the second batch is recorded at 1, the average at the start of the sale.
\<close>

theorem sale_deductions_witness:
  "saleDeductions [flour_fresh] [bread] sale_cart = [(''flour'', 10, 1), (''flour'', 3, 1)]
   \<and> handleFinalizeTransaction ''d2'' [flour_fresh] [bread] sale_cart
     = [flour_fresh\<lparr>stockHistory :=
          [\<lparr>date = ''d1'', quantity = 10, unitCost = 1\<rparr>,
           \<lparr>date = ''d2'', quantity = - 10, unitCost = 1\<rparr>,
           \<lparr>date = ''d2'', quantity = - 3, unitCost = 1\<rparr>]\<rparr>]"
proof -
  have d: "distinct (map ing_id [flour_fresh])"
    by simp
  have "ing_id flour_fresh = ''flour''"
    and "stockHistory flour_fresh = [\<lparr>date = ''d1'', quantity = 10, unitCost = 1\<rparr>]"
    by (simp_all add: flour_fresh_def)
  with sale_deductions [of "''d2''" "[flour_fresh]" "[bread]" sale_cart, THEN conjunct2, rule_format, OF d]
  show ?thesis
    by (simp add: sale_cart_deductions)
qed


subsection \<open>Recipe cost and sellable stock\<close>

lemma Math_min_Min: "xs \<noteq> [] \<Longrightarrow> Math_min xs = Some (Min (set xs))"
proof (cases xs)
  case Nil
  assume "xs \<noteq> []"
  with Nil show ?thesis by simp
next
  case (Cons y ys)
  have "foldl min y ys = fold min ys y"
    by (simp add: foldl_conv_fold min.commute)
  also have "\<dots> = Min (set (y # ys))"
    by (rule Min.set_eq_fold [symmetric])
  finally show ?thesis
    by (simp only: Cons Math_min.simps)
qed

lemma product_cost_from:
  "foldl (\<lambda>totalCost recipeItem.
      case find (\<lambda>i. ing_id i = ingredientId recipeItem) ingredients of
        None \<Rightarrow> totalCost
      | Some ingredient \<Rightarrow>
          totalCost + getIngredientAverageCost ingredient * recipe_quantity recipeItem)
     a recipe
   = a + (\<Sum>line\<leftarrow>recipe.
        case find (\<lambda>i. ing_id i = ingredientId line) ingredients of
          None \<Rightarrow> 0
        | Some ingredient \<Rightarrow> getIngredientAverageCost ingredient * recipe_quantity line)"
proof (induction recipe arbitrary: a)
  case Nil
  show ?case by simp
next
  case (Cons line recipe)
  show ?case
    by (cases "find (\<lambda>i. ing_id i = ingredientId line) ingredients")
       (simp_all add: Cons.IH add.assoc)
qed

text \<open>
  C6. The cost of a recipe is the sum, over its lines, of the average cost of the
  ingredient with the line's id times the line's quantity; a line whose id names no
  ingredient contributes 0, and no line raises an error (the function is total).
\<close>

theorem product_cost_sum:
  "calculateProductCost recipe ingredients =
     (\<Sum>line\<leftarrow>recipe.
        case find (\<lambda>i. ing_id i = ingredientId line) ingredients of
          None \<Rightarrow> 0
        | Some ingredient \<Rightarrow> getIngredientAverageCost ingredient * recipe_quantity line)"
  unfolding calculateProductCost_def by (simp add: product_cost_from)

lemma stockLevel_cases:
  "stockLevel ingredients line =
     (case find (\<lambda>i. ing_id i = ingredientId line) ingredients of
        None \<Rightarrow> 0
      | Some ingredient \<Rightarrow>
          if getIngredientTotalStock ingredient = 0 \<or> recipe_quantity line = 0
          then 0
          else of_int \<lfloor>getIngredientTotalStock ingredient / recipe_quantity line\<rfloor>)"
  by (simp add: stockLevel_def Let_def split: option.split)

lemma product_stock_levels:
  "recipe \<noteq> [] \<Longrightarrow>
   calculateProductStock recipe ingredients = Some (Min (stockLevel ingredients ` set recipe))"
  by (simp add: calculateProductStock_def Math_min_Min)

text \<open>
  C2. The sellable stock of a product is the minimum, over the lines of its recipe, of
  the floor of the ingredient's total stock divided by the line's quantity, where a line
  whose id names no ingredient, whose ingredient has total stock 0, or whose quantity is
  0 counts 0; an empty recipe yields 0. The result is always a number, never the
  infinity of an empty minimum.
\<close>

theorem product_stock_min:
  "calculateProductStock recipe ingredients =
     Some (if recipe = [] then 0
           else Min ((\<lambda>line.
                  case find (\<lambda>i. ing_id i = ingredientId line) ingredients of
                    None \<Rightarrow> 0
                  | Some ingredient \<Rightarrow>
                      if getIngredientTotalStock ingredient = 0 \<or> recipe_quantity line = 0
                      then 0
                      else of_int \<lfloor>getIngredientTotalStock ingredient / recipe_quantity line\<rfloor>)
                ` set recipe))"
proof (cases "recipe = []")
  case True
  then show ?thesis by (simp add: calculateProductStock_def)
next
  case False
  have "stockLevel ingredients = (\<lambda>line.
          case find (\<lambda>i. ing_id i = ingredientId line) ingredients of
            None \<Rightarrow> 0
          | Some ingredient \<Rightarrow>
              if getIngredientTotalStock ingredient = 0 \<or> recipe_quantity line = 0
              then 0
              else of_int \<lfloor>getIngredientTotalStock ingredient / recipe_quantity line\<rfloor>)"
    by (rule ext) (rule stockLevel_cases)
  with False product_stock_levels [OF False, of ingredients] show ?thesis
    by simp
qed

text \<open>
  C10. The sellable stock can be negative. Whenever a recipe has a line of positive
  quantity whose ingredient exists and has negative total stock, that line counts the
  floor of total stock over quantity, which is negative (the guard that makes a line
  count 0 tests the total stock for being exactly 0, not for being at most 0), and the
  minimum over the lines, the function's result, is negative too.
\<close>

theorem product_stock_negative:
  assumes "line \<in> set recipe"
    and "0 < recipe_quantity line"
    and "find (\<lambda>i. ing_id i = ingredientId line) ingredients = Some ingredient"
    and "getIngredientTotalStock ingredient < 0"
  shows "stockLevel ingredients line
           = of_int \<lfloor>getIngredientTotalStock ingredient / recipe_quantity line\<rfloor>
         \<and> stockLevel ingredients line < 0
         \<and> (\<exists>m. calculateProductStock recipe ingredients = Some m
                  \<and> m \<le> stockLevel ingredients line \<and> m < 0)"
proof -
  let ?q = "getIngredientTotalStock ingredient / recipe_quantity line"
  have level: "stockLevel ingredients line = of_int \<lfloor>?q\<rfloor>"
    using assms by (simp add: stockLevel_cases)
  have "?q < 0"
    using assms by (simp add: divide_neg_pos)
  moreover have "of_int \<lfloor>?q\<rfloor> \<le> ?q"
    by (rule of_int_floor_le)
  ultimately have neg: "stockLevel ingredients line < 0"
    using level by linarith
  from assms(1) have ne: "recipe \<noteq> []"
    by auto
  have "Min (stockLevel ingredients ` set recipe) \<le> stockLevel ingredients line"
    using assms(1) by (intro Min_le) simp_all
  with neg have "Min (stockLevel ingredients ` set recipe) < 0"
    by linarith
  with \<open>Min (stockLevel ingredients ` set recipe) \<le> stockLevel ingredients line\<close>
    neg level product_stock_levels [OF ne, of ingredients]
  show ?thesis
    by blast
qed

theorem product_stock_negative_witness:
  "stockLevel [flour_oversold] \<lparr>ingredientId = ''flour'', recipe_quantity = 2\<rparr> = - 3
   \<and> calculateProductStock [\<lparr>ingredientId = ''flour'', recipe_quantity = 2\<rparr>] [flour_oversold]
       = Some (- 3)"
proof -
  let ?line = "\<lparr>ingredientId = ''flour'', recipe_quantity = 2\<rparr>"
  have total: "getIngredientTotalStock flour_oversold = - 5"
    by (simp add: getIngredientTotalStock_def flour_oversold_def)
  have h1: "?line \<in> set [?line]"
    by simp
  have h2: "0 < recipe_quantity ?line"
    by simp
  have h3: "find (\<lambda>i. ing_id i = ingredientId ?line) [flour_oversold] = Some flour_oversold"
    by (simp add: flour_oversold_def)
  have h4: "getIngredientTotalStock flour_oversold < 0"
    by (simp add: total)
  have "stockLevel [flour_oversold] ?line = - 3"
    using product_stock_negative [OF h1 h2 h3 h4] by (simp add: total)
  then show ?thesis
    by (simp add: calculateProductStock_def)
qed

end
